theory Spec2Isabelle
  imports Main
begin

section \<open>Session-security engine: the data model\<close>

text \<open>
  The development embeds the token service (\<^verbatim>\<open>JWTService\<close> in
  \<^verbatim>\<open>core/utils/jwt.ts\<close>), the security event tracking
  (\<^verbatim>\<open>modules/security/db.ts\<close> and \<^verbatim>\<open>utils.ts\<close>) and the request
  middleware (\<^verbatim>\<open>core/middleware/authenticate.ts\<close>).

  Conventions of the embedding:
  \<^item> Times are \<^verbatim>\<open>Date.now()\<close> values, milliseconds as natural numbers. One call of an
    operation reads the clock once (the parameter \<open>now\<close>): the few milliseconds between
    the \<^verbatim>\<open>new Date()\<close> calls inside one operation are not modelled.
  \<^item> The tables of the database are lists of rows in storage order; \<^verbatim>\<open>findFirst\<close> is
    \<open>find\<close>. Unique and foreign keys of the schema are enforced by the write operations,
    which return a storage error where PostgreSQL would, and so is the length limit of
    the two \<^verbatim>\<open>VARCHAR(45)\<close> address columns (every other text column of the modelled
    tables is \<^verbatim>\<open>TEXT\<close>). Identifiers are taken to be well-formed, the epoch to stay
    in the range of its \<^verbatim>\<open>INTEGER\<close> column, and transient storage failures are outside
    the model.
  \<^item> An operation is a sequence of awaited reads and writes. Where the source runs two
    writes of one operation without a transaction and a property depends on the store
    between them, the first write is an operation of its own
    (\<open>db_user_update_tokenVersion\<close>, the first half of \<^verbatim>\<open>incrementUserTokenVersion\<close>).
  \<^item> Random bytes and database-generated row ids are inputs (\<open>entropy\<close>).
  \<^item> The column \<^verbatim>\<open>updated_at\<close> and the primary keys of alerts and of login-history
    entries are left out: no modelled operation reads them.
  \<^item> A thrown \<^verbatim>\<open>UnauthorizedError\<close> is a value of \<open>failure\<close>, one constructor for
    each message of the source.
\<close>

type_synonym timestamp = nat

subsection \<open>JavaScript truthiness of optional strings\<close>

definition truthy :: "string option \<Rightarrow> bool" where
  "truthy x = (case x of None \<Rightarrow> False | Some s \<Rightarrow> s \<noteq> [])"

text \<open>\<^verbatim>\<open>a || b\<close> with \<open>b\<close> a string, and with \<open>b\<close> optional.\<close>

definition or_str :: "string option \<Rightarrow> string \<Rightarrow> string" where
  "or_str a b = (case a of None \<Rightarrow> b | Some s \<Rightarrow> if s = [] then b else s)"

definition or_opt :: "string option \<Rightarrow> string option \<Rightarrow> string option" where
  "or_opt a b = (if truthy a then a else b)"

subsection \<open>Signed tokens\<close>

text \<open>
  The library \<^verbatim>\<open>jsonwebtoken\<close> is not part of the repository. A token string is
  modelled symbolically: either a token signed under a secret, carrying its payload with
  the issued-at and expiry stamps (in seconds), or any other text. Signatures are taken
  as unforgeable: verification under a secret accepts exactly the tokens signed under it.
\<close>

datatype claims =
    AccessClaims string string string
  | RefreshClaims string int string string

datatype tokstr =
    Jwt string claims nat nat
  | Text string

datatype jwt_error = JwtMalformed | JwtInvalidSignature | JwtExpired

definition jwt_sign :: "string \<Rightarrow> claims \<Rightarrow> nat \<Rightarrow> timestamp \<Rightarrow> tokstr" where
  "jwt_sign secret payload expiresIn now =
     Jwt secret payload (now div 1000) (now div 1000 + expiresIn)"

fun jwt_verify :: "string \<Rightarrow> timestamp \<Rightarrow> tokstr \<Rightarrow> jwt_error + claims" where
  "jwt_verify secret now (Text s) = Inl JwtMalformed"
| "jwt_verify secret now (Jwt k payload issued expires) =
     (if k \<noteq> secret then Inl JwtInvalidSignature
      else if expires \<le> now div 1000 then Inl JwtExpired
      else Inr payload)"

fun is_access :: "claims \<Rightarrow> bool" where
  "is_access (AccessClaims u e n) = True"
| "is_access (RefreshClaims u v f j) = False"

fun is_refresh :: "claims \<Rightarrow> bool" where
  "is_refresh (AccessClaims u e n) = False"
| "is_refresh (RefreshClaims u v f j) = True"

fun tok_jti :: "tokstr \<Rightarrow> string option" where
  "tok_jti (Jwt k (RefreshClaims u v f j) i e) = Some j"
| "tok_jti (Jwt k (AccessClaims u e' n) i e) = None"
| "tok_jti (Text s) = None"

text \<open>Truthiness of an optional token string (\<^verbatim>\<open>replacedByToken\<close>).\<close>

fun tok_truthy :: "tokstr option \<Rightarrow> bool" where
  "tok_truthy None = False"
| "tok_truthy (Some (Text s)) = (s \<noteq> [])"
| "tok_truthy (Some (Jwt k p i e)) = True"

subsection \<open>Tables\<close>

record user_row =
  u_email :: string
  u_name :: "string option"
  u_tokenVersion :: int

record refresh_row =
  rt_id :: string
  rt_userId :: string
  rt_token :: tokstr
  rt_tokenVersion :: int
  rt_familyId :: string
  rt_deviceFingerprint :: "string option"
  rt_expiresAt :: timestamp
  rt_isRevoked :: bool
  rt_deviceInfo :: "string option"
  rt_ipAddress :: "string option"
  rt_lastUsedAt :: "timestamp option"
  rt_rotatedAt :: "timestamp option"
  rt_replacedByToken :: "tokstr option"
  rt_createdAt :: timestamp

datatype alert_type =
  new_device | new_location | suspicious_ip | multiple_failures | token_reuse | device_mismatch

record alert_row =
  al_userId :: string
  al_alertType :: alert_type
  al_message :: string
  al_metadata :: "(string \<times> string) list"
  al_isRead :: bool
  al_isDismissed :: bool
  al_createdAt :: timestamp

datatype event_type = ev_login | ev_token_refresh | ev_new_device | ev_new_ip

record login_row =
  lh_userId :: string
  lh_ipAddress :: string
  lh_deviceInfo :: "string option"
  lh_deviceFingerprint :: "string option"
  lh_browser :: string
  lh_os :: string
  lh_isTrustedDevice :: bool
  lh_eventType :: event_type
  lh_createdAt :: timestamp

record trusted_row =
  td_id :: string
  td_userId :: string
  td_deviceFingerprint :: string
  td_deviceName :: string
  td_browser :: string
  td_os :: string
  td_lastIpAddress :: "string option"
  td_lastUsedAt :: timestamp
  td_createdAt :: timestamp

text \<open>
  The persistent tables together with the in-memory state of the service: the set
  \<^verbatim>\<open>blacklistedTokens\<close> and the pending \<^verbatim>\<open>setTimeout\<close> callbacks, each with the
  time at which it is due and the token it deletes.
\<close>

record world =
  user :: "string \<rightharpoonup> user_row"
  refreshToken :: "refresh_row list"
  securityAlert :: "alert_row list"
  loginHistory :: "login_row list"
  trustedDevice :: "trusted_row list"
  blacklistedTokens :: "tokstr set"
  timers :: "(timestamp \<times> tokstr) list"

record config =
  accessTokenSecret :: string
  refreshTokenSecret :: string
  accessTokenExpiry :: nat
  refreshTokenExpiry :: nat

record parsed_device =
  pd_browser :: string
  pd_os :: string
  pd_deviceName :: string

text \<open>
  Two parameters of the model: the SHA-256 hex digest of \<^verbatim>\<open>crypto\<close>, and the display
  labels that \<^verbatim>\<open>parseUserAgent\<close> reads off a user-agent string (no decision of the
  engine depends on which labels it returns).
\<close>

record platform =
  sha256_hex :: "string \<Rightarrow> string"
  parseUserAgent :: "string option \<Rightarrow> parsed_device"

record entropy =
  e_family :: string
  e_jti :: string
  e_rowId :: string

datatype storage_error = UniqueViolation | ForeignKeyViolation | RecordNotFound | ValueTooLong

datatype failure =
    InvalidOrExpiredRefreshToken jwt_error
  | InvalidOrExpiredAccessToken jwt_error
  | InvalidTokenType
  | RefreshTokenNotFound
  | RefreshTokenExpired
  | SessionInvalidated
  | TokenReuseDetected
  | DeviceMismatch
  | TokenRevoked
  | RefreshTokenNotFoundOrRevoked
  | RefreshTokenAlreadyRotated
  | InvalidTokenVersion
  | SessionInvalidatedOnVerify
  | NoAuthorizationHeader
  | InvalidAuthorizationFormat
  | AccessExpiredNoRefresh
  | BothTokensInvalid
  | StorageFailure storage_error

record token_pair =
  accessToken :: tokstr
  refreshToken_of :: tokstr

definition ROTATION_GRACE_MS :: int where
  "ROTATION_GRACE_MS = 10000"

section \<open>Security utilities\<close>

text \<open>\<^verbatim>\<open>generateDeviceFingerprint\<close>: the first 32 hex digits of the digest of
  \<^verbatim>\<open>baseBrowser:os:userAgent\<close>, the browser label cut at its first space.\<close>

definition generateDeviceFingerprint :: "platform \<Rightarrow> string option \<Rightarrow> string" where
  "generateDeviceFingerprint pf userAgent =
     (let parsed = parseUserAgent pf userAgent;
          baseBrowser = takeWhile (\<lambda>c. c \<noteq> CHR '' '') (pd_browser parsed);
          baseString = baseBrowser @ '':'' @ pd_os parsed @ '':'' @ or_str userAgent ''unknown''
      in take 32 (sha256_hex pf baseString))"

definition normalizeIp :: "string option \<Rightarrow> string" where
  "normalizeIp ip =
     (case ip of
        None \<Rightarrow> ''unknown''
      | Some s \<Rightarrow>
          if s = [] then ''unknown''
          else if take 7 s = ''::ffff:'' then drop 7 s
          else if s = ''::1'' then ''127.0.0.1''
          else s)"

section \<open>Storage operations\<close>

text \<open>The width of \<^verbatim>\<open>login_history.ip_address\<close> and of
  \<^verbatim>\<open>trusted_devices.last_ip_address\<close>, both \<^verbatim>\<open>VARCHAR(45)\<close>: a longer value is
  refused by the insert or update. (PostgreSQL cuts off an excess that is all spaces
  instead of refusing the value. The addresses that reach these columns, a trimmed
  header value or a socket address, do not end in a space, and the embedding refuses
  every longer value.)\<close>

definition IP_ADDRESS_WIDTH :: nat where
  "IP_ADDRESS_WIDTH = 45"

definition db_refreshToken_findFirst :: "(refresh_row \<Rightarrow> bool) \<Rightarrow> world \<Rightarrow> refresh_row option" where
  "db_refreshToken_findFirst p w = find p (refreshToken w)"

text \<open>\<^verbatim>\<open>findFirst\<close> with \<^verbatim>\<open>include: { user }\<close>: the row joined with its owner. The
  foreign key of the schema makes the owner exist; a row without one is not returned.\<close>

definition db_refreshToken_findFirst_user ::
  "(refresh_row \<Rightarrow> bool) \<Rightarrow> world \<Rightarrow> (refresh_row \<times> user_row) option" where
  "db_refreshToken_findFirst_user p w =
     (case find p (refreshToken w) of
        None \<Rightarrow> None
      | Some r \<Rightarrow> (case user w (rt_userId r) of None \<Rightarrow> None | Some u \<Rightarrow> Some (r, u)))"

text \<open>\<^verbatim>\<open>create\<close>: the primary key and the unique index on \<^verbatim>\<open>token\<close> reject a
  duplicate, the foreign key rejects an unknown owner.\<close>

definition db_refreshToken_create :: "refresh_row \<Rightarrow> world \<Rightarrow> storage_error + world" where
  "db_refreshToken_create r w =
     (if rt_id r \<in> rt_id ` set (refreshToken w) then Inl UniqueViolation
      else if rt_token r \<in> rt_token ` set (refreshToken w) then Inl UniqueViolation
      else if user w (rt_userId r) = None then Inl ForeignKeyViolation
      else Inr (w\<lparr>refreshToken := refreshToken w @ [r]\<rparr>))"

text \<open>\<^verbatim>\<open>update\<close> by primary key and \<^verbatim>\<open>updateMany\<close> by a filter.\<close>

definition db_refreshToken_updateMany ::
  "(refresh_row \<Rightarrow> bool) \<Rightarrow> (refresh_row \<Rightarrow> refresh_row) \<Rightarrow> world \<Rightarrow> world" where
  "db_refreshToken_updateMany p f w =
     w\<lparr>refreshToken := map (\<lambda>r. if p r then f r else r) (refreshToken w)\<rparr>"

definition db_refreshToken_update :: "string \<Rightarrow> (refresh_row \<Rightarrow> refresh_row) \<Rightarrow> world \<Rightarrow> world" where
  "db_refreshToken_update i f w = db_refreshToken_updateMany (\<lambda>r. rt_id r = i) f w"

definition createSecurityAlert ::
  "timestamp \<Rightarrow> string \<Rightarrow> alert_type \<Rightarrow> string \<Rightarrow> (string \<times> string) list \<Rightarrow> world
   \<Rightarrow> storage_error + world" where
  "createSecurityAlert now userId alertType message metadata w =
     (if user w userId = None then Inl ForeignKeyViolation
      else Inr (w\<lparr>securityAlert := securityAlert w @
             [\<lparr>al_userId = userId, al_alertType = alertType, al_message = message,
               al_metadata = metadata, al_isRead = False, al_isDismissed = False,
               al_createdAt = now\<rparr>]\<rparr>))"

text \<open>The fire-and-forget call \<^verbatim>\<open>createSecurityAlert(...).catch(() => {})\<close>.\<close>

definition createSecurityAlert_forget ::
  "timestamp \<Rightarrow> string \<Rightarrow> alert_type \<Rightarrow> string \<Rightarrow> (string \<times> string) list \<Rightarrow> world \<Rightarrow> world" where
  "createSecurityAlert_forget now userId alertType message metadata w =
     (case createSecurityAlert now userId alertType message metadata w of
        Inl e \<Rightarrow> w
      | Inr w' \<Rightarrow> w')"

section \<open>The token service\<close>

subsection \<open>Access tokens\<close>

definition generateAccessToken :: "config \<Rightarrow> timestamp \<Rightarrow> string \<Rightarrow> string \<Rightarrow> string \<Rightarrow> tokstr" where
  "generateAccessToken cfg now userId email name =
     jwt_sign (accessTokenSecret cfg) (AccessClaims userId email name) (accessTokenExpiry cfg) now"

definition verifyAccessToken :: "config \<Rightarrow> timestamp \<Rightarrow> tokstr \<Rightarrow> world \<Rightarrow> failure + claims" where
  "verifyAccessToken cfg now token w =
     (if token \<in> blacklistedTokens w then Inl TokenRevoked
      else case jwt_verify (accessTokenSecret cfg) now token of
             Inl e \<Rightarrow> Inl (InvalidOrExpiredAccessToken e)
           | Inr decoded \<Rightarrow> if \<not> is_access decoded then Inl InvalidTokenType else Inr decoded)"

text \<open>\<^verbatim>\<open>blacklistAccessToken\<close> adds the token and schedules its removal
  \<^verbatim>\<open>5 * 60 * 1000\<close> milliseconds later.\<close>

definition blacklistAccessToken :: "timestamp \<Rightarrow> tokstr \<Rightarrow> world \<Rightarrow> world" where
  "blacklistAccessToken now token w =
     w\<lparr>blacklistedTokens := insert token (blacklistedTokens w),
       timers := timers w @ [(now + 5 * 60 * 1000, token)]\<rparr>"

text \<open>The event loop at time \<open>now\<close>: every callback that is due has run (each deletes
  its token from the set) and is no longer pending.\<close>

definition runTimers :: "timestamp \<Rightarrow> world \<Rightarrow> world" where
  "runTimers now w =
     w\<lparr>blacklistedTokens :=
         blacklistedTokens w - snd ` set (filter (\<lambda>t. fst t \<le> now) (timers w)),
       timers := filter (\<lambda>t. \<not> fst t \<le> now) (timers w)\<rparr>"

subsection \<open>Refresh token generation\<close>

text \<open>
  \<^verbatim>\<open>generateRefreshToken\<close> reads the owner's current \<^verbatim>\<open>tokenVersion\<close> (1 when the
  owner is missing or the version is 0), signs a token with a random \<^verbatim>\<open>jti\<close>, and
  stores one row. The row's \<^verbatim>\<open>expiresAt\<close> is the source's
  \<^verbatim>\<open>setDate(getDate() + 15)\<close>, taken as 15 times 24 hours (a server clock without
  daylight-saving shifts); the expiry inside the signed token comes from the configured
  \<^verbatim>\<open>refreshTokenExpiry\<close> instead.
\<close>

definition generateRefreshToken ::
  "config \<Rightarrow> platform \<Rightarrow> entropy \<Rightarrow> timestamp \<Rightarrow> string \<Rightarrow> string option \<Rightarrow> string option
   \<Rightarrow> string option \<Rightarrow> string option \<Rightarrow> world \<Rightarrow> (failure + tokstr) \<times> world" where
  "generateRefreshToken cfg pf ent now userId deviceInfo ipAddress familyId deviceFingerprint w =
     (let tokenVersion =
            (case user w userId of
               None \<Rightarrow> 1
             | Some u \<Rightarrow> if u_tokenVersion u = 0 then 1 else u_tokenVersion u);
          family = or_str familyId (e_family ent);
          fingerprint = or_str deviceFingerprint (generateDeviceFingerprint pf deviceInfo);
          token = jwt_sign (refreshTokenSecret cfg)
                    (RefreshClaims userId tokenVersion family (e_jti ent))
                    (refreshTokenExpiry cfg) now;
          expiresAt = now + 15 * 86400000
      in case db_refreshToken_create
                \<lparr>rt_id = e_rowId ent, rt_userId = userId, rt_token = token,
                 rt_tokenVersion = tokenVersion, rt_familyId = family,
                 rt_deviceFingerprint = Some fingerprint, rt_expiresAt = expiresAt,
                 rt_isRevoked = False, rt_deviceInfo = deviceInfo, rt_ipAddress = ipAddress,
                 rt_lastUsedAt = None, rt_rotatedAt = None, rt_replacedByToken = None,
                 rt_createdAt = now\<rparr> w of
           Inl e \<Rightarrow> (Inl (StorageFailure e), w)
         | Inr w' \<Rightarrow> (Inr token, w'))"

definition generateTokenPair ::
  "config \<Rightarrow> platform \<Rightarrow> entropy \<Rightarrow> timestamp \<Rightarrow> string \<Rightarrow> string \<Rightarrow> string \<Rightarrow> string option
   \<Rightarrow> string option \<Rightarrow> string option \<Rightarrow> world \<Rightarrow> (failure + token_pair) \<times> world" where
  "generateTokenPair cfg pf ent now userId email name deviceInfo ipAddress deviceFingerprint w =
     (let accessToken = generateAccessToken cfg now userId email name
      in case generateRefreshToken cfg pf ent now userId deviceInfo ipAddress None
                deviceFingerprint w of
           (Inl e, w') \<Rightarrow> (Inl e, w')
         | (Inr newToken, w') \<Rightarrow>
             (Inr \<lparr>accessToken = accessToken, refreshToken_of = newToken\<rparr>, w'))"

subsection \<open>Revocation\<close>

definition revokeRefreshToken :: "tokstr \<Rightarrow> world \<Rightarrow> world" where
  "revokeRefreshToken token w =
     db_refreshToken_updateMany (\<lambda>r. rt_token r = token) (\<lambda>r. r\<lparr>rt_isRevoked := True\<rparr>) w"

definition revokeAllUserTokens :: "string \<Rightarrow> world \<Rightarrow> world" where
  "revokeAllUserTokens userId w =
     db_refreshToken_updateMany (\<lambda>r. rt_userId r = userId \<and> rt_isRevoked r = False)
       (\<lambda>r. r\<lparr>rt_isRevoked := True\<rparr>) w"

definition revokeTokenFamily :: "string \<Rightarrow> world \<Rightarrow> world" where
  "revokeTokenFamily familyId w =
     db_refreshToken_updateMany (\<lambda>r. rt_familyId r = familyId \<and> rt_isRevoked r = False)
       (\<lambda>r. r\<lparr>rt_isRevoked := True\<rparr>) w"

text \<open>
  \<^verbatim>\<open>incrementUserTokenVersion\<close> is two awaited writes, not one transaction: first
  \<^verbatim>\<open>prisma.user.update\<close> with \<^verbatim>\<open>tokenVersion: { increment: 1 }\<close>, which raises when
  the user does not exist, then \<^verbatim>\<open>revokeAllUserTokens\<close>. Another request can be served
  between the two, in the store that the first write leaves.
\<close>

definition db_user_update_tokenVersion :: "string \<Rightarrow> world \<Rightarrow> (failure + int) \<times> world" where
  "db_user_update_tokenVersion userId w =
     (case user w userId of
        None \<Rightarrow> (Inl (StorageFailure RecordNotFound), w)
      | Some u \<Rightarrow>
          (Inr (u_tokenVersion u + 1),
           w\<lparr>user := (user w)(userId \<mapsto> u\<lparr>u_tokenVersion := u_tokenVersion u + 1\<rparr>)\<rparr>))"

definition incrementUserTokenVersion :: "string \<Rightarrow> world \<Rightarrow> (failure + int) \<times> world" where
  "incrementUserTokenVersion userId w =
     (case db_user_update_tokenVersion userId w of
        (Inl e, w') \<Rightarrow> (Inl e, w')
      | (Inr v, w') \<Rightarrow> (Inr v, revokeAllUserTokens userId w'))"

definition cleanupExpiredTokens :: "timestamp \<Rightarrow> world \<Rightarrow> nat \<times> world" where
  "cleanupExpiredTokens now w =
     (length (filter (\<lambda>r. rt_expiresAt r < now) (refreshToken w)),
      w\<lparr>refreshToken := filter (\<lambda>r. \<not> rt_expiresAt r < now) (refreshToken w)\<rparr>)"

definition revokeDevice :: "string \<Rightarrow> string \<Rightarrow> world \<Rightarrow> world" where
  "revokeDevice userId tokenId w =
     (case db_refreshToken_findFirst (\<lambda>r. rt_id r = tokenId \<and> rt_userId r = userId) w of
        None \<Rightarrow> w
      | Some token \<Rightarrow> revokeTokenFamily (rt_familyId token) w)"

subsection \<open>Rotation\<close>

definition token_reuse_message :: string where
  "token_reuse_message = ''Possible session hijacking detected. A previously used refresh token was presented again. All sessions in this login chain have been revoked for your safety.''"

definition device_mismatch_message :: string where
  "device_mismatch_message = ''A refresh token was used from a different device than it was issued to. The session has been revoked for your safety.''"

definition alert_metadata :: "string \<Rightarrow> string option \<Rightarrow> string option \<Rightarrow> (string \<times> string) list" where
  "alert_metadata familyId ipAddress deviceInfo =
     [(''familyId'', familyId), (''ip'', or_str ipAddress ''unknown''),
      (''device'', or_str deviceInfo ''unknown'')]"

text \<open>The grace branch of the reuse check: the replacement row that is handed out again,
  if the old row was rotated less than \<open>ROTATION_GRACE_MS\<close> ago and its replacement is
  stored, not revoked and not expired.\<close>

definition graceReplacement :: "timestamp \<Rightarrow> refresh_row \<Rightarrow> world \<Rightarrow> (refresh_row \<times> user_row) option" where
  "graceReplacement now storedToken w =
     (case rt_rotatedAt storedToken of
        None \<Rightarrow> None
      | Some rotatedAt \<Rightarrow>
          if int now - int rotatedAt < ROTATION_GRACE_MS
             \<and> tok_truthy (rt_replacedByToken storedToken)
          then (case db_refreshToken_findFirst_user
                       (\<lambda>r. Some (rt_token r) = rt_replacedByToken storedToken
                            \<and> rt_isRevoked r = False) w of
                  None \<Rightarrow> None
                | Some (replacementRecord, replacementUser) \<Rightarrow>
                    if now < rt_expiresAt replacementRecord
                    then Some (replacementRecord, replacementUser) else None)
          else None)"

definition rotateRefreshToken ::
  "config \<Rightarrow> platform \<Rightarrow> entropy \<Rightarrow> timestamp \<Rightarrow> tokstr \<Rightarrow> string option \<Rightarrow> string option
   \<Rightarrow> string option \<Rightarrow> world \<Rightarrow> (failure + token_pair) \<times> world" where
  "rotateRefreshToken cfg pf ent now oldTokenString deviceInfo ipAddress requestFingerprint w =
     (case jwt_verify (refreshTokenSecret cfg) now oldTokenString of
        Inl e \<Rightarrow> (Inl (InvalidOrExpiredRefreshToken e), w)
      | Inr decoded \<Rightarrow>
        if \<not> is_refresh decoded then (Inl InvalidTokenType, w)
        else
        (case db_refreshToken_findFirst_user (\<lambda>r. rt_token r = oldTokenString) w of
           None \<Rightarrow> (Inl RefreshTokenNotFound, w)
         | Some (storedToken, storedUser) \<Rightarrow>
           if now > rt_expiresAt storedToken then (Inl RefreshTokenExpired, w)
           else if rt_tokenVersion storedToken < u_tokenVersion storedUser then
             (Inl SessionInvalidated,
              db_refreshToken_update (rt_id storedToken) (\<lambda>r. r\<lparr>rt_isRevoked := True\<rparr>) w)
           else if rt_isRevoked storedToken \<or> tok_truthy (rt_replacedByToken storedToken) then
             (case graceReplacement now storedToken w of
                Some (replacementRecord, replacementUser) \<Rightarrow>
                  (Inr \<lparr>accessToken =
                          generateAccessToken cfg now (rt_userId replacementRecord)
                            (u_email replacementUser) (or_str (u_name replacementUser) []),
                        refreshToken_of = rt_token replacementRecord\<rparr>, w)
              | None \<Rightarrow>
                  (Inl TokenReuseDetected,
                   createSecurityAlert_forget now (rt_userId storedToken) token_reuse
                     token_reuse_message
                     (alert_metadata (rt_familyId storedToken) ipAddress deviceInfo)
                     (revokeTokenFamily (rt_familyId storedToken) w)))
           else if truthy (rt_deviceFingerprint storedToken) \<and> truthy requestFingerprint
                   \<and> rt_deviceFingerprint storedToken \<noteq> requestFingerprint then
             (Inl DeviceMismatch,
              createSecurityAlert_forget now (rt_userId storedToken) device_mismatch
                device_mismatch_message
                (alert_metadata (rt_familyId storedToken) ipAddress deviceInfo)
                (revokeTokenFamily (rt_familyId storedToken) w))
           else
             (case generateRefreshToken cfg pf ent now (rt_userId storedToken) deviceInfo
                     ipAddress (Some (rt_familyId storedToken))
                     (or_opt (rt_deviceFingerprint storedToken) requestFingerprint) w of
                (Inl e, w') \<Rightarrow> (Inl e, w')
              | (Inr newRefreshToken, w') \<Rightarrow>
                  (Inr \<lparr>accessToken =
                          generateAccessToken cfg now (rt_userId storedToken)
                            (u_email storedUser) (or_str (u_name storedUser) []),
                        refreshToken_of = newRefreshToken\<rparr>,
                   db_refreshToken_update (rt_id storedToken)
                     (\<lambda>r. r\<lparr>rt_replacedByToken := Some newRefreshToken,
                            rt_rotatedAt := Some now, rt_lastUsedAt := Some now\<rparr>) w'))))"

subsection \<open>Verification of a refresh token without rotation\<close>

record verified_session =
  vs_userId :: string
  vs_email :: string
  vs_name :: string
  vs_tokenVersion :: int

fun claims_tokenVersion :: "claims \<Rightarrow> int option" where
  "claims_tokenVersion (RefreshClaims u v f j) = Some v"
| "claims_tokenVersion (AccessClaims u e n) = None"

definition verifyRefreshToken ::
  "config \<Rightarrow> timestamp \<Rightarrow> tokstr \<Rightarrow> world \<Rightarrow> (failure + verified_session) \<times> world" where
  "verifyRefreshToken cfg now token w =
     (case jwt_verify (refreshTokenSecret cfg) now token of
        Inl e \<Rightarrow> (Inl (InvalidOrExpiredRefreshToken e), w)
      | Inr decoded \<Rightarrow>
        if \<not> is_refresh decoded then (Inl InvalidTokenType, w)
        else
        (case db_refreshToken_findFirst_user
                (\<lambda>r. rt_token r = token \<and> rt_isRevoked r = False) w of
           None \<Rightarrow> (Inl RefreshTokenNotFoundOrRevoked, w)
         | Some (storedToken, storedUser) \<Rightarrow>
           if tok_truthy (rt_replacedByToken storedToken) then (Inl RefreshTokenAlreadyRotated, w)
           else if now > rt_expiresAt storedToken then (Inl RefreshTokenExpired, w)
           else if claims_tokenVersion decoded \<noteq> Some (rt_tokenVersion storedToken)
             then (Inl InvalidTokenVersion, w)
           else if rt_tokenVersion storedToken < u_tokenVersion storedUser
             then (Inl SessionInvalidatedOnVerify, w)
           else
             (Inr \<lparr>vs_userId = rt_userId storedToken, vs_email = u_email storedUser,
                   vs_name = or_str (u_name storedUser) [],
                   vs_tokenVersion = rt_tokenVersion storedToken\<rparr>,
              db_refreshToken_update (rt_id storedToken) (\<lambda>r. r\<lparr>rt_lastUsedAt := Some now\<rparr>) w)))"

section \<open>Security event tracking\<close>

definition trustedDevice_findUnique :: "string \<Rightarrow> string \<Rightarrow> world \<Rightarrow> trusted_row option" where
  "trustedDevice_findUnique userId fingerprint w =
     find (\<lambda>d. td_userId d = userId \<and> td_deviceFingerprint d = fingerprint) (trustedDevice w)"

text \<open>
  \<^verbatim>\<open>recordLoginEvent\<close> normalizes the address (a second time when
  \<^verbatim>\<open>processAuthEvent\<close> calls it), looks the device up among the trusted ones and
  inserts the history entry. The insert is refused when the address is wider than its
  column or the principal does not exist.
\<close>

definition recordLoginEvent ::
  "platform \<Rightarrow> timestamp \<Rightarrow> string \<Rightarrow> string \<Rightarrow> string option \<Rightarrow> event_type \<Rightarrow> world
   \<Rightarrow> storage_error + world" where
  "recordLoginEvent pf now userId ipAddress userAgent eventType w =
     (let ip = normalizeIp (Some ipAddress);
          fingerprint = generateDeviceFingerprint pf userAgent;
          parsed = parseUserAgent pf userAgent;
          trusted = trustedDevice_findUnique userId fingerprint w
      in if IP_ADDRESS_WIDTH < length ip then Inl ValueTooLong
         else if user w userId = None then Inl ForeignKeyViolation
         else Inr (w\<lparr>loginHistory := loginHistory w @
                [\<lparr>lh_userId = userId, lh_ipAddress = ip,
                  lh_deviceInfo = (if truthy userAgent then userAgent else None),
                  lh_deviceFingerprint = Some fingerprint, lh_browser = pd_browser parsed,
                  lh_os = pd_os parsed, lh_isTrustedDevice = (trusted \<noteq> None),
                  lh_eventType = eventType, lh_createdAt = now\<rparr>]\<rparr>))"

record auth_event_result =
  isNewDevice :: bool
  isTrusted :: bool
  isNewIp :: "bool option"

definition new_device_metadata :: "string \<Rightarrow> parsed_device \<Rightarrow> string \<Rightarrow> (string \<times> string) list" where
  "new_device_metadata ip parsed fingerprint =
     [(''ip'', ip), (''browser'', pd_browser parsed), (''os'', pd_os parsed),
      (''deviceName'', pd_deviceName parsed), (''fingerprint'', fingerprint)]"

definition new_location_metadata :: "string \<Rightarrow> parsed_device \<Rightarrow> (string \<times> string) list" where
  "new_location_metadata ip parsed =
     [(''ip'', ip), (''browser'', pd_browser parsed), (''os'', pd_os parsed),
      (''deviceName'', pd_deviceName parsed)]"

text \<open>
  \<^verbatim>\<open>processAuthEvent\<close>. For a trusted device it updates the device's
  \<^verbatim>\<open>lastUsedAt\<close> and \<^verbatim>\<open>lastIpAddress\<close> (refused when the address is wider than its
  column) and records logins only. For any other device it classifies the event against
  the principal's login history, awaits the history insert, and only then creates an
  alert: a refused insert ends the call before any alert.
\<close>

definition processAuthEvent ::
  "platform \<Rightarrow> timestamp \<Rightarrow> string \<Rightarrow> string option \<Rightarrow> string option \<Rightarrow> event_type \<Rightarrow> world
   \<Rightarrow> (storage_error + auth_event_result) \<times> world" where
  "processAuthEvent pf now userId ipAddress userAgent eventType w =
     (let ip = normalizeIp ipAddress;
          fingerprint = generateDeviceFingerprint pf userAgent;
          parsed = parseUserAgent pf userAgent
      in case trustedDevice_findUnique userId fingerprint w of
           Some trusted \<Rightarrow>
             if IP_ADDRESS_WIDTH < length ip then (Inl ValueTooLong, w) else
             (let w1 = w\<lparr>trustedDevice :=
                          map (\<lambda>d. if td_id d = td_id trusted
                                    then d\<lparr>td_lastUsedAt := now, td_lastIpAddress := Some ip\<rparr>
                                    else d) (trustedDevice w)\<rparr>
              in if eventType = ev_login
                 then (case recordLoginEvent pf now userId ip userAgent eventType w1 of
                         Inl e \<Rightarrow> (Inl e, w1)
                       | Inr w2 \<Rightarrow>
                           (Inr \<lparr>isNewDevice = False, isTrusted = True, isNewIp = None\<rparr>, w2))
                 else (Inr \<lparr>isNewDevice = False, isTrusted = True, isNewIp = None\<rparr>, w1))
         | None \<Rightarrow>
             (let previousLogin =
                    find (\<lambda>h. lh_userId h = userId \<and> lh_deviceFingerprint h = Some fingerprint)
                      (loginHistory w);
                  newDevice = (previousLogin = None);
                  previousIpLogin =
                    find (\<lambda>h. lh_userId h = userId \<and> lh_ipAddress h = ip) (loginHistory w);
                  newIp = (previousIpLogin = None);
                  actualEventType =
                    (if newDevice then ev_new_device else if newIp then ev_new_ip else eventType)
              in case recordLoginEvent pf now userId ip userAgent actualEventType w of
                   Inl e \<Rightarrow> (Inl e, w)
                 | Inr w1 \<Rightarrow>
                   (case (if newDevice
                          then createSecurityAlert now userId new_device
                                 (''New device detected: '' @ pd_deviceName parsed)
                                 (new_device_metadata ip parsed fingerprint) w1
                          else Inr w1) of
                      Inl e \<Rightarrow> (Inl e, w1)
                    | Inr w2 \<Rightarrow>
                      (case (if newIp \<and> \<not> newDevice
                             then createSecurityAlert now userId new_location
                                    (''Login from a new IP address: '' @ ip)
                                    (new_location_metadata ip parsed) w2
                             else Inr w2) of
                         Inl e \<Rightarrow> (Inl e, w2)
                       | Inr w3 \<Rightarrow>
                           (Inr \<lparr>isNewDevice = newDevice, isTrusted = False,
                                 isNewIp = Some newIp\<rparr>, w3)))))"

section \<open>The request middleware\<close>

text \<open>
  The headers the middleware reads. \<open>h_authorization\<close> is the \<^verbatim>\<open>Authorization\<close> header
  already split at its spaces (\<open>None\<close> when the header is absent or empty), so that the
  second part can be a signed token.
\<close>

record request =
  h_authorization :: "tokstr list option"
  h_x_refresh_token :: "tokstr option"
  h_x_forwarded_for :: "string option"
  h_user_agent :: "string option"
  remoteAddress :: "string option"

record authenticated =
  req_user :: claims
  x_new_access_token :: "tokstr option"
  x_new_refresh_token :: "tokstr option"

text \<open>
  \<^verbatim>\<open>authenticateJWT\<close> ends in \<^verbatim>\<open>next()\<close> with the identity attached (\<open>Inr\<close>) or in
  \<^verbatim>\<open>next(error)\<close> (\<open>Inl\<close>). The event tracking after a rotation is started without
  being awaited and its failure is dropped; the model runs it at once and keeps the
  world it leaves.
\<close>

fun claims_userId :: "claims \<Rightarrow> string" where
  "claims_userId (AccessClaims u e n) = u"
| "claims_userId (RefreshClaims u v f j) = u"

definition authenticateJWT ::
  "config \<Rightarrow> platform \<Rightarrow> entropy \<Rightarrow> timestamp \<Rightarrow> request \<Rightarrow> world
   \<Rightarrow> (failure + authenticated) \<times> world" where
  "authenticateJWT cfg pf ent now req w =
     (case h_authorization req of
        None \<Rightarrow> (Inl NoAuthorizationHeader, w)
      | Some parts \<Rightarrow>
        (case parts of
           [scheme, token] \<Rightarrow>
             if scheme \<noteq> Text ''Bearer'' then (Inl InvalidAuthorizationFormat, w)
             else
             (case verifyAccessToken cfg now token w of
                Inr payload \<Rightarrow>
                  (Inr \<lparr>req_user = payload, x_new_access_token = None,
                        x_new_refresh_token = None\<rparr>, w)
              | Inl accessTokenError \<Rightarrow>
                (case h_x_refresh_token req of
                   None \<Rightarrow> (Inl AccessExpiredNoRefresh, w)
                 | Some refreshTok \<Rightarrow>
                   if \<not> tok_truthy (Some refreshTok) then (Inl AccessExpiredNoRefresh, w)
                   else
                   (let ipAddress = or_opt (h_x_forwarded_for req) (remoteAddress req);
                        userAgent = h_user_agent req;
                        requestFingerprint = generateDeviceFingerprint pf userAgent
                    in case rotateRefreshToken cfg pf ent now refreshTok userAgent ipAddress
                              (Some requestFingerprint) w of
                         (Inl refreshTokenError, w1) \<Rightarrow> (Inl BothTokensInvalid, w1)
                       | (Inr rotationResult, w1) \<Rightarrow>
                         (case verifyAccessToken cfg now (accessToken rotationResult) w1 of
                            Inl e \<Rightarrow> (Inl BothTokensInvalid, w1)
                          | Inr newPayload \<Rightarrow>
                              (Inr \<lparr>req_user = newPayload,
                                    x_new_access_token = Some (accessToken rotationResult),
                                    x_new_refresh_token = Some (refreshToken_of rotationResult)\<rparr>,
                               snd (processAuthEvent pf now (claims_userId newPayload)
                                      ipAddress userAgent ev_token_refresh w1))))))
         | _ \<Rightarrow> (Inl InvalidAuthorizationFormat, w)))"

section \<open>The operations of the engine as one step function\<close>

datatype engine_op =
    OpGenerateTokenPair entropy timestamp string string string
      "string option" "string option" "string option"
  | OpRotateRefreshToken entropy timestamp tokstr "string option" "string option" "string option"
  | OpVerifyAccessToken timestamp tokstr
  | OpVerifyRefreshToken timestamp tokstr
  | OpRevokeRefreshToken tokstr
  | OpRevokeTokenFamily string
  | OpRevokeAllUserTokens string
  | OpIncrementUserTokenVersion string
  | OpUserUpdateTokenVersion string
  | OpRevokeDevice string string
  | OpCleanupExpiredTokens timestamp
  | OpBlacklistAccessToken timestamp tokstr
  | OpAuthenticateJWT entropy timestamp request
  | OpProcessAuthEvent timestamp string "string option" "string option" event_type

fun exec :: "config \<Rightarrow> platform \<Rightarrow> engine_op \<Rightarrow> world \<Rightarrow> world" where
  "exec cfg pf (OpGenerateTokenPair ent now userId email name deviceInfo ip fp) w =
     snd (generateTokenPair cfg pf ent now userId email name deviceInfo ip fp w)"
| "exec cfg pf (OpRotateRefreshToken ent now token deviceInfo ip fp) w =
     snd (rotateRefreshToken cfg pf ent now token deviceInfo ip fp w)"
| "exec cfg pf (OpVerifyAccessToken now token) w = w"
| "exec cfg pf (OpVerifyRefreshToken now token) w = snd (verifyRefreshToken cfg now token w)"
| "exec cfg pf (OpRevokeRefreshToken token) w = revokeRefreshToken token w"
| "exec cfg pf (OpRevokeTokenFamily familyId) w = revokeTokenFamily familyId w"
| "exec cfg pf (OpRevokeAllUserTokens userId) w = revokeAllUserTokens userId w"
| "exec cfg pf (OpIncrementUserTokenVersion userId) w = snd (incrementUserTokenVersion userId w)"
| "exec cfg pf (OpUserUpdateTokenVersion userId) w = snd (db_user_update_tokenVersion userId w)"
| "exec cfg pf (OpRevokeDevice userId tokenId) w = revokeDevice userId tokenId w"
| "exec cfg pf (OpCleanupExpiredTokens now) w = snd (cleanupExpiredTokens now w)"
| "exec cfg pf (OpBlacklistAccessToken now token) w = blacklistAccessToken now token w"
| "exec cfg pf (OpAuthenticateJWT ent now req) w = snd (authenticateJWT cfg pf ent now req w)"
| "exec cfg pf (OpProcessAuthEvent now userId ip userAgent eventType) w =
     snd (processAuthEvent pf now userId ip userAgent eventType w)"

section \<open>Notions used to state the properties\<close>

text \<open>The presented token passes the checks that come first in \<^verbatim>\<open>rotateRefreshToken\<close>:
  it verifies as a refresh token, its row \<open>r\<close> is stored (with owner \<open>u\<close>), and the row has
  not expired.\<close>

definition presentable :: "config \<Rightarrow> timestamp \<Rightarrow> tokstr \<Rightarrow> world \<Rightarrow> refresh_row \<Rightarrow> user_row \<Rightarrow> bool" where
  "presentable cfg now tok w r u \<longleftrightarrow>
     (case jwt_verify (refreshTokenSecret cfg) now tok of Inl e \<Rightarrow> False | Inr d \<Rightarrow> is_refresh d)
     \<and> find (\<lambda>x. rt_token x = tok) (refreshToken w) = Some r
     \<and> user w (rt_userId r) = Some u
     \<and> \<not> now > rt_expiresAt r"

text \<open>The rows of a family after \<^verbatim>\<open>revokeTokenFamily\<close>.\<close>

definition family_revoked :: "string \<Rightarrow> refresh_row list \<Rightarrow> refresh_row list" where
  "family_revoked familyId rows =
     map (\<lambda>x. if rt_familyId x = familyId then x\<lparr>rt_isRevoked := True\<rparr> else x) rows"

text \<open>The primary key of the refresh-token table.\<close>

definition pk_unique :: "world \<Rightarrow> bool" where
  "pk_unique w \<longleftrightarrow> distinct (map rt_id (refreshToken w))"

text \<open>From \<open>w\<close> to \<open>w'\<close> no stored row changes its family, and no revoked row becomes
  unrevoked. Rows are identified by their primary key.\<close>

definition rows_preserved :: "world \<Rightarrow> world \<Rightarrow> bool" where
  "rows_preserved w w' \<longleftrightarrow>
     (\<forall>r \<in> set (refreshToken w). \<forall>r' \<in> set (refreshToken w').
        rt_id r' = rt_id r \<longrightarrow>
          rt_familyId r' = rt_familyId r \<and> (rt_isRevoked r \<longrightarrow> rt_isRevoked r'))"

text \<open>The random bytes and the row id drawn for a new refresh token are fresh.\<close>

definition fresh :: "entropy \<Rightarrow> world \<Rightarrow> bool" where
  "fresh ent w \<longleftrightarrow>
     e_rowId ent \<notin> rt_id ` set (refreshToken w)
     \<and> Some (e_jti ent) \<notin> tok_jti ` rt_token ` set (refreshToken w)"

text \<open>The row that a successful \<^verbatim>\<open>generateRefreshToken\<close> stores for an owner \<open>u\<close>.\<close>

definition minted_row ::
  "config \<Rightarrow> platform \<Rightarrow> entropy \<Rightarrow> timestamp \<Rightarrow> string \<Rightarrow> string option \<Rightarrow> string option
   \<Rightarrow> string option \<Rightarrow> string option \<Rightarrow> user_row \<Rightarrow> refresh_row" where
  "minted_row cfg pf ent now userId deviceInfo ipAddress familyId deviceFingerprint u =
     \<lparr>rt_id = e_rowId ent, rt_userId = userId,
      rt_token = jwt_sign (refreshTokenSecret cfg)
         (RefreshClaims userId (if u_tokenVersion u = 0 then 1 else u_tokenVersion u)
            (or_str familyId (e_family ent)) (e_jti ent))
         (refreshTokenExpiry cfg) now,
      rt_tokenVersion = (if u_tokenVersion u = 0 then 1 else u_tokenVersion u),
      rt_familyId = or_str familyId (e_family ent),
      rt_deviceFingerprint =
        Some (or_str deviceFingerprint (generateDeviceFingerprint pf deviceInfo)),
      rt_expiresAt = now + 15 * 86400000, rt_isRevoked = False, rt_deviceInfo = deviceInfo,
      rt_ipAddress = ipAddress, rt_lastUsedAt = None, rt_rotatedAt = None,
      rt_replacedByToken = None, rt_createdAt = now\<rparr>"

text \<open>The expiry stamp of a signed token, in milliseconds.\<close>

fun tok_expiry_ms :: "tokstr \<Rightarrow> int" where
  "tok_expiry_ms (Jwt k p i e) = int e * 1000"
| "tok_expiry_ms (Text s) = 0"

text \<open>An update of a row that leaves its primary key and its family alone and does not
  clear its revoked flag.\<close>

definition gentle :: "(refresh_row \<Rightarrow> refresh_row) \<Rightarrow> bool" where
  "gentle g \<longleftrightarrow>
     (\<forall>r. rt_id (g r) = rt_id r \<and> rt_familyId (g r) = rt_familyId r
          \<and> (rt_isRevoked r \<longrightarrow> rt_isRevoked (g r)))"

text \<open>The ways in which the operations other than the cleanup change the table: rows
  are updated gently, and rows with a new primary key are appended.\<close>

inductive grows :: "refresh_row list \<Rightarrow> refresh_row list \<Rightarrow> bool" where
  same: "grows xs xs"
| upd: "grows xs ys \<Longrightarrow> gentle g \<Longrightarrow> grows xs (map g ys)"
| add: "grows xs ys \<Longrightarrow> rt_id n \<notin> rt_id ` set ys \<Longrightarrow> grows xs (ys @ [n])"

section \<open>A small deployment, for concrete runs\<close>

definition demo_cfg :: config where
  "demo_cfg = \<lparr>accessTokenSecret = ''ka'', refreshTokenSecret = ''kr'',
                accessTokenExpiry = 300, refreshTokenExpiry = 1296000\<rparr>"

definition demo_pf :: platform where
  "demo_pf = \<lparr>sha256_hex = (\<lambda>s. CHR ''h'' # s),
               parseUserAgent = (\<lambda>ua. \<lparr>pd_browser = ''B'', pd_os = ''O'', pd_deviceName = ''D''\<rparr>)\<rparr>"

definition empty_world :: world where
  "empty_world = \<lparr>user = Map.empty, refreshToken = [], securityAlert = [], loginHistory = [],
                  trustedDevice = [], blacklistedTokens = {}, timers = []\<rparr>"

definition demo_user :: user_row where
  "demo_user = \<lparr>u_email = ''ann@example.com'', u_name = Some ''Ann'', u_tokenVersion = 1\<rparr>"

definition demo_world :: world where
  "demo_world = empty_world\<lparr>user := [''u1'' \<mapsto> demo_user]\<rparr>"

definition ent1 :: entropy where
  "ent1 = \<lparr>e_family = ''f1'', e_jti = ''j1'', e_rowId = ''r1''\<rparr>"

definition ent2 :: entropy where
  "ent2 = \<lparr>e_family = ''f2'', e_jti = ''j2'', e_rowId = ''r2''\<rparr>"

definition ent3 :: entropy where
  "ent3 = \<lparr>e_family = ''f3'', e_jti = ''j3'', e_rowId = ''r3''\<rparr>"

text \<open>The row and the token that a login of \<open>u1\<close> at time 0 stores, the world after
  it, and the world after that token has been rotated at time 1000.\<close>

definition demo_tok1 :: tokstr where
  "demo_tok1 = Jwt ''kr'' (RefreshClaims ''u1'' 1 ''f1'' ''j1'') 0 1296000"

definition demo_tok2 :: tokstr where
  "demo_tok2 = Jwt ''kr'' (RefreshClaims ''u1'' 1 ''f1'' ''j2'') 1 1296001"

definition demo_row1 :: refresh_row where
  "demo_row1 = \<lparr>rt_id = ''r1'', rt_userId = ''u1'', rt_token = demo_tok1,
     rt_tokenVersion = 1, rt_familyId = ''f1'', rt_deviceFingerprint = Some ''hB:O:UA'',
     rt_expiresAt = 1296000000, rt_isRevoked = False, rt_deviceInfo = Some ''UA'',
     rt_ipAddress = Some ''10.0.0.1'', rt_lastUsedAt = None, rt_rotatedAt = None,
     rt_replacedByToken = None, rt_createdAt = 0\<rparr>"

definition demo_row2 :: refresh_row where
  "demo_row2 = \<lparr>rt_id = ''r2'', rt_userId = ''u1'', rt_token = demo_tok2,
     rt_tokenVersion = 1, rt_familyId = ''f1'', rt_deviceFingerprint = Some ''hB:O:UA'',
     rt_expiresAt = 1296001000, rt_isRevoked = False, rt_deviceInfo = Some ''UA'',
     rt_ipAddress = Some ''10.0.0.1'', rt_lastUsedAt = None, rt_rotatedAt = None,
     rt_replacedByToken = None, rt_createdAt = 1000\<rparr>"

definition demo_row1_rotated :: refresh_row where
  "demo_row1_rotated = demo_row1\<lparr>rt_replacedByToken := Some demo_tok2,
     rt_rotatedAt := Some 1000, rt_lastUsedAt := Some 1000\<rparr>"

definition demo_world1 :: world where
  "demo_world1 = demo_world\<lparr>refreshToken := [demo_row1]\<rparr>"

definition demo_world2 :: world where
  "demo_world2 = demo_world\<lparr>refreshToken := [demo_row1_rotated, demo_row2]\<rparr>"

text \<open>A request with an expired access token and the rotated refresh token of the demo
  run.\<close>

definition demo_req :: request where
  "demo_req = \<lparr>h_authorization =
       Some [Text ''Bearer'', Jwt ''ka'' (AccessClaims ''u1'' ''ann@example.com'' ''Ann'') 0 300],
     h_x_refresh_token = Some demo_tok1, h_x_forwarded_for = None,
     h_user_agent = Some ''UA'', remoteAddress = Some ''10.0.0.1''\<rparr>"



text \<open>The demo login's token rotated late instead: at 1295995000, five seconds before it
  expires. The successor token and row of that rotation, the old row as the rotation
  leaves it, and the world after it.\<close>

definition demo_tok_late :: tokstr where
  "demo_tok_late = Jwt ''kr'' (RefreshClaims ''u1'' 1 ''f1'' ''j2'') 1295995 2591995"

definition demo_row_late :: refresh_row where
  "demo_row_late = \<lparr>rt_id = ''r2'', rt_userId = ''u1'', rt_token = demo_tok_late,
     rt_tokenVersion = 1, rt_familyId = ''f1'', rt_deviceFingerprint = Some ''hB:O:UA'',
     rt_expiresAt = 2591995000, rt_isRevoked = False, rt_deviceInfo = Some ''UA'',
     rt_ipAddress = Some ''10.0.0.1'', rt_lastUsedAt = None, rt_rotatedAt = None,
     rt_replacedByToken = None, rt_createdAt = 1295995000\<rparr>"

definition demo_row1_late :: refresh_row where
  "demo_row1_late = demo_row1\<lparr>rt_replacedByToken := Some demo_tok_late,
     rt_rotatedAt := Some 1295995000, rt_lastUsedAt := Some 1295995000\<rparr>"

definition demo_world_late :: world where
  "demo_world_late = demo_world\<lparr>refreshToken := [demo_row1_late, demo_row_late]\<rparr>"


section \<open>The branches of rotation\<close>

lemma presentable_lookup:
  "presentable cfg now tok w r u \<Longrightarrow>
   db_refreshToken_findFirst_user (\<lambda>x. rt_token x = tok) w = Some (r, u)"
  by (simp add: presentable_def db_refreshToken_findFirst_user_def)

lemma presentable_verify:
  "presentable cfg now tok w r u \<Longrightarrow>
   \<exists>d. jwt_verify (refreshTokenSecret cfg) now tok = Inr d \<and> is_refresh d"
  by (auto simp: presentable_def split: sum.splits)

lemma rotate_epoch_behind:
  assumes "presentable cfg now tok w r u" "rt_tokenVersion r < u_tokenVersion u"
  shows "rotateRefreshToken cfg pf ent now tok deviceInfo ip fp w =
           (Inl SessionInvalidated,
            db_refreshToken_update (rt_id r) (\<lambda>x. x\<lparr>rt_isRevoked := True\<rparr>) w)"
proof -
  obtain d where d: "jwt_verify (refreshTokenSecret cfg) now tok = Inr d" "is_refresh d"
    using presentable_verify [OF assms(1)] by blast
  have e: "\<not> now > rt_expiresAt r" using assms(1) by (simp add: presentable_def)
  show ?thesis
    using d e assms(2) presentable_lookup [OF assms(1)]
    by (simp add: rotateRefreshToken_def)
qed

lemma rotate_grace:
  assumes "presentable cfg now tok w r u" "\<not> rt_tokenVersion r < u_tokenVersion u"
    "rt_isRevoked r \<or> tok_truthy (rt_replacedByToken r)"
    "graceReplacement now r w = Some (rr, ru)"
  shows "rotateRefreshToken cfg pf ent now tok deviceInfo ip fp w =
           (Inr \<lparr>accessToken = generateAccessToken cfg now (rt_userId rr) (u_email ru)
                    (or_str (u_name ru) []),
                 refreshToken_of = rt_token rr\<rparr>, w)"
proof -
  obtain d where d: "jwt_verify (refreshTokenSecret cfg) now tok = Inr d" "is_refresh d"
    using presentable_verify [OF assms(1)] by blast
  have e: "\<not> now > rt_expiresAt r" using assms(1) by (simp add: presentable_def)
  show ?thesis
    using d e assms(2,3,4) presentable_lookup [OF assms(1)]
    by (simp add: rotateRefreshToken_def)
qed

lemma rotate_reuse:
  assumes "presentable cfg now tok w r u" "\<not> rt_tokenVersion r < u_tokenVersion u"
    "rt_isRevoked r \<or> tok_truthy (rt_replacedByToken r)"
    "graceReplacement now r w = None"
  shows "rotateRefreshToken cfg pf ent now tok deviceInfo ip fp w =
           (Inl TokenReuseDetected,
            createSecurityAlert_forget now (rt_userId r) token_reuse token_reuse_message
              (alert_metadata (rt_familyId r) ip deviceInfo)
              (revokeTokenFamily (rt_familyId r) w))"
proof -
  obtain d where d: "jwt_verify (refreshTokenSecret cfg) now tok = Inr d" "is_refresh d"
    using presentable_verify [OF assms(1)] by blast
  have e: "\<not> now > rt_expiresAt r" using assms(1) by (simp add: presentable_def)
  show ?thesis
    using d e assms(2,3,4) presentable_lookup [OF assms(1)]
    by (simp add: rotateRefreshToken_def)
qed

lemma rotate_mismatch:
  assumes "presentable cfg now tok w r u" "\<not> rt_tokenVersion r < u_tokenVersion u"
    "\<not> rt_isRevoked r" "\<not> tok_truthy (rt_replacedByToken r)"
    "truthy (rt_deviceFingerprint r)" "truthy fp" "rt_deviceFingerprint r \<noteq> fp"
  shows "rotateRefreshToken cfg pf ent now tok deviceInfo ip fp w =
           (Inl DeviceMismatch,
            createSecurityAlert_forget now (rt_userId r) device_mismatch device_mismatch_message
              (alert_metadata (rt_familyId r) ip deviceInfo)
              (revokeTokenFamily (rt_familyId r) w))"
proof -
  obtain d where d: "jwt_verify (refreshTokenSecret cfg) now tok = Inr d" "is_refresh d"
    using presentable_verify [OF assms(1)] by blast
  have e: "\<not> now > rt_expiresAt r" using assms(1) by (simp add: presentable_def)
  show ?thesis
    using d e assms(2-7) presentable_lookup [OF assms(1)]
    by (simp add: rotateRefreshToken_def)
qed

lemma rotate_proceeds:
  assumes "presentable cfg now tok w r u" "\<not> rt_tokenVersion r < u_tokenVersion u"
    "\<not> rt_isRevoked r" "\<not> tok_truthy (rt_replacedByToken r)"
    "\<not> (truthy (rt_deviceFingerprint r) \<and> truthy fp \<and> rt_deviceFingerprint r \<noteq> fp)"
  shows "rotateRefreshToken cfg pf ent now tok deviceInfo ip fp w =
           (case generateRefreshToken cfg pf ent now (rt_userId r) deviceInfo ip
                   (Some (rt_familyId r)) (or_opt (rt_deviceFingerprint r) fp) w of
              (Inl e, w') \<Rightarrow> (Inl e, w')
            | (Inr newRefreshToken, w') \<Rightarrow>
                (Inr \<lparr>accessToken = generateAccessToken cfg now (rt_userId r) (u_email u)
                         (or_str (u_name u) []),
                      refreshToken_of = newRefreshToken\<rparr>,
                 db_refreshToken_update (rt_id r)
                   (\<lambda>x. x\<lparr>rt_replacedByToken := Some newRefreshToken,
                          rt_rotatedAt := Some now, rt_lastUsedAt := Some now\<rparr>) w'))"
proof -
  obtain d where d: "jwt_verify (refreshTokenSecret cfg) now tok = Inr d" "is_refresh d"
    using presentable_verify [OF assms(1)] by blast
  have e: "\<not> now > rt_expiresAt r" using assms(1) by (simp add: presentable_def)
  have m: "(truthy (rt_deviceFingerprint r) \<and> truthy fp \<and> rt_deviceFingerprint r \<noteq> fp) = False"
    using assms(5) by blast
  show ?thesis
    using d e assms(2-4) presentable_lookup [OF assms(1)]
    by (simp add: rotateRefreshToken_def m)
qed

section \<open>Lists, rows and tables\<close>

lemma find_map_same:
  "(\<And>x. P (f x) = P x) \<Longrightarrow> find P (map f xs) = map_option f (find P xs)"
  by (induction xs) auto

lemma find_append_last:
  "(\<And>x. x \<in> set xs \<Longrightarrow> \<not> P x) \<Longrightarrow> find P (xs @ [y]) = (if P y then Some y else None)"
  by (induction xs) auto

lemma find_append_first:
  "find P xs = Some x \<Longrightarrow> find P (xs @ ys) = Some x"
  by (induction xs) (auto split: if_splits)

lemma find_SomeD: "find P xs = Some x \<Longrightarrow> x \<in> set xs \<and> P x"
  by (induction xs) (auto split: if_splits)

lemma find_token_append:
  "t \<notin> rt_token ` set xs \<Longrightarrow>
   find (\<lambda>x. rt_token x = t) (xs @ [y]) = (if rt_token y = t then Some y else None)"
  by (rule find_append_last) (auto simp: image_iff)

lemma find_conj:
  "find P xs = Some x \<Longrightarrow> Q x \<Longrightarrow> find (\<lambda>y. P y \<and> Q y) xs = Some x"
  by (induction xs) (auto split: if_splits)

lemma or_str_nonempty: "b \<noteq> [] \<Longrightarrow> or_str a b \<noteq> []"
  by (simp add: or_str_def split: option.splits)

lemma or_str_Some: "s \<noteq> [] \<Longrightarrow> or_str (Some s) b = s"
  by (simp add: or_str_def)

lemma revoke_idem: "rt_isRevoked x \<Longrightarrow> x\<lparr>rt_isRevoked := True\<rparr> = x"
  by simp

lemma revokeTokenFamily_rows:
  "refreshToken (revokeTokenFamily f w) = family_revoked f (refreshToken w)"
  unfolding revokeTokenFamily_def db_refreshToken_updateMany_def family_revoked_def
  by (auto intro!: map_cong simp: revoke_idem)

lemma revokeTokenFamily_other:
  "user (revokeTokenFamily f w) = user w"
  "securityAlert (revokeTokenFamily f w) = securityAlert w"
  by (simp_all add: revokeTokenFamily_def db_refreshToken_updateMany_def)

lemma family_revoked_all:
  assumes "x \<in> set (family_revoked f rows)" "rt_familyId x = f"
  shows "rt_isRevoked x"
proof -
  have "(\<exists>xa\<in>set rows \<inter> {x. rt_familyId x = f}. x = xa\<lparr>rt_isRevoked := True\<rparr>)
        \<or> x \<in> set rows \<and> rt_familyId x \<noteq> f"
    using assms(1) unfolding family_revoked_def by (simp add: image_iff)
  then obtain xa where "x = xa\<lparr>rt_isRevoked := True\<rparr>"
    using assms(2) by blast
  then show ?thesis by simp
qed

lemma alert_after_family_revocation:
  assumes "user w uid = Some u"
  shows "refreshToken (createSecurityAlert_forget now uid ty msg md (revokeTokenFamily f w))
           = family_revoked f (refreshToken w)"
    and "securityAlert (createSecurityAlert_forget now uid ty msg md (revokeTokenFamily f w))
           = securityAlert w @
             [\<lparr>al_userId = uid, al_alertType = ty, al_message = msg, al_metadata = md,
               al_isRead = False, al_isDismissed = False, al_createdAt = now\<rparr>]"
  using assms
  by (simp_all add: createSecurityAlert_forget_def createSecurityAlert_def
        revokeTokenFamily_other revokeTokenFamily_rows)

lemma user_update_Some:
  "user w uid = Some u \<Longrightarrow>
   db_user_update_tokenVersion uid w =
     (Inr (u_tokenVersion u + 1),
      w\<lparr>user := (user w)(uid \<mapsto> u\<lparr>u_tokenVersion := u_tokenVersion u + 1\<rparr>)\<rparr>)"
  by (simp add: db_user_update_tokenVersion_def)

lemma increment_Some:
  "user w uid = Some u \<Longrightarrow>
   incrementUserTokenVersion uid w =
     (Inr (u_tokenVersion u + 1),
      revokeAllUserTokens uid
        (w\<lparr>user := (user w)(uid \<mapsto> u\<lparr>u_tokenVersion := u_tokenVersion u + 1\<rparr>)\<rparr>))"
  by (simp add: incrementUserTokenVersion_def user_update_Some)

lemma find_after_revoke:
  "find (\<lambda>x. rt_token x = tok) (refreshToken w) = Some r \<Longrightarrow>
   find (\<lambda>x. rt_token x = tok)
     (refreshToken (db_refreshToken_update (rt_id r) (\<lambda>x. x\<lparr>rt_isRevoked := True\<rparr>) w))
   = Some (r\<lparr>rt_isRevoked := True\<rparr>)"
  unfolding db_refreshToken_update_def db_refreshToken_updateMany_def
  by (simp add: find_map_same)

lemma epoch_behind_marks:
  assumes "presentable cfg now tok w r u" "rt_tokenVersion r < u_tokenVersion u"
  shows "rotateRefreshToken cfg pf ent now tok deviceInfo ip fp w =
           (Inl SessionInvalidated,
            db_refreshToken_update (rt_id r) (\<lambda>x. x\<lparr>rt_isRevoked := True\<rparr>) w)
       \<and> find (\<lambda>x. rt_token x = tok)
           (refreshToken (db_refreshToken_update (rt_id r) (\<lambda>x. x\<lparr>rt_isRevoked := True\<rparr>) w))
         = Some (r\<lparr>rt_isRevoked := True\<rparr>)"
proof -
  have "find (\<lambda>x. rt_token x = tok) (refreshToken w) = Some r"
    using assms(1) by (simp add: presentable_def)
  then show ?thesis
    using rotate_epoch_behind [OF assms] find_after_revoke by simp
qed

section \<open>Minting and the state after a rotation\<close>

lemma generateRefreshToken_Inr:
  assumes "generateRefreshToken cfg pf ent now uid deviceInfo ip fam fp w = (Inr tok, w')"
  shows "\<exists>u. user w uid = Some u
           \<and> tok = rt_token (minted_row cfg pf ent now uid deviceInfo ip fam fp u)
           \<and> w' = w\<lparr>refreshToken := refreshToken w @
                      [minted_row cfg pf ent now uid deviceInfo ip fam fp u]\<rparr>
           \<and> e_rowId ent \<notin> rt_id ` set (refreshToken w)
           \<and> tok \<notin> rt_token ` set (refreshToken w)"
  using assms
  by (auto simp: generateRefreshToken_def db_refreshToken_create_def minted_row_def Let_def
        split: if_splits option.splits)

lemma generateRefreshToken_fresh:
  assumes "fresh ent w" "user w uid = Some u"
  shows "generateRefreshToken cfg pf ent now uid deviceInfo ip fam fp w =
           (Inr (rt_token (minted_row cfg pf ent now uid deviceInfo ip fam fp u)),
            w\<lparr>refreshToken := refreshToken w @
                 [minted_row cfg pf ent now uid deviceInfo ip fam fp u]\<rparr>)"
proof -
  have "rt_token (minted_row cfg pf ent now uid deviceInfo ip fam fp u)
          \<notin> rt_token ` set (refreshToken w)"
  proof
    assume "rt_token (minted_row cfg pf ent now uid deviceInfo ip fam fp u)
              \<in> rt_token ` set (refreshToken w)"
    then have "tok_jti (rt_token (minted_row cfg pf ent now uid deviceInfo ip fam fp u))
                 \<in> tok_jti ` rt_token ` set (refreshToken w)"
      by blast
    then show False using assms(1) by (simp add: fresh_def minted_row_def jwt_sign_def)
  qed
  then show ?thesis
    using assms
    by (simp add: generateRefreshToken_def db_refreshToken_create_def minted_row_def Let_def
          fresh_def)
qed

lemma rotate_happy_state:
  assumes pres: "presentable cfg now tok w r u"
    and fr: "fresh ent w"
    and new: "new = minted_row cfg pf ent now (rt_userId r) deviceInfo ip (Some (rt_familyId r)) fpn u"
    and w': "w' = db_refreshToken_update (rt_id r)
                   (\<lambda>x. x\<lparr>rt_replacedByToken := Some (rt_token new),
                          rt_rotatedAt := Some now, rt_lastUsedAt := Some now\<rparr>)
                   (w\<lparr>refreshToken := refreshToken w @ [new]\<rparr>)"
  shows "find (\<lambda>x. rt_token x = tok) (refreshToken w')
           = Some (r\<lparr>rt_replacedByToken := Some (rt_token new),
                     rt_rotatedAt := Some now, rt_lastUsedAt := Some now\<rparr>)"
    and "find (\<lambda>x. rt_token x = rt_token new) (refreshToken w') = Some new"
    and "length (refreshToken w') = Suc (length (refreshToken w))"
    and "securityAlert w' = securityAlert w"
proof -
  let ?f = "\<lambda>x. if rt_id x = rt_id r
                 then x\<lparr>rt_replacedByToken := Some (rt_token new),
                         rt_rotatedAt := Some now, rt_lastUsedAt := Some now\<rparr>
                 else x"
  have rows: "refreshToken w' = map ?f (refreshToken w @ [new])"
    by (simp add: w' db_refreshToken_update_def db_refreshToken_updateMany_def)
  have fnd: "find (\<lambda>x. rt_token x = tok) (refreshToken w) = Some r"
    using pres by (simp add: presentable_def)
  have rin: "r \<in> set (refreshToken w)" using find_SomeD [OF fnd] by simp
  have idn: "rt_id new \<noteq> rt_id r"
    using fr rin by (auto simp: fresh_def new minted_row_def)
  have tokn: "rt_token new \<notin> rt_token ` set (refreshToken w)"
  proof
    assume "rt_token new \<in> rt_token ` set (refreshToken w)"
    then have "tok_jti (rt_token new) \<in> tok_jti ` rt_token ` set (refreshToken w)" by blast
    then show False using fr by (simp add: fresh_def new minted_row_def jwt_sign_def)
  qed
  have "find (\<lambda>x. rt_token x = tok) (map ?f (refreshToken w @ [new]))
          = map_option ?f (find (\<lambda>x. rt_token x = tok) (refreshToken w @ [new]))"
    by (rule find_map_same) simp
  also have "\<dots> = Some (?f r)" using find_append_first [OF fnd] by simp
  finally show "find (\<lambda>x. rt_token x = tok) (refreshToken w')
           = Some (r\<lparr>rt_replacedByToken := Some (rt_token new),
                     rt_rotatedAt := Some now, rt_lastUsedAt := Some now\<rparr>)"
    by (simp add: rows)
  have "find (\<lambda>x. rt_token x = rt_token new) (map ?f (refreshToken w @ [new]))
          = map_option ?f (find (\<lambda>x. rt_token x = rt_token new) (refreshToken w @ [new]))"
    by (rule find_map_same) simp
  also have "find (\<lambda>x. rt_token x = rt_token new) (refreshToken w @ [new]) = Some new"
    using tokn by (simp add: find_token_append)
  finally show "find (\<lambda>x. rt_token x = rt_token new) (refreshToken w') = Some new"
    using idn by (simp add: rows)
  show "length (refreshToken w') = Suc (length (refreshToken w))" by (simp add: rows)
  show "securityAlert w' = securityAlert w"
    by (simp add: w' db_refreshToken_update_def db_refreshToken_updateMany_def)
qed

lemma graceReplacement_Some:
  assumes "rt_rotatedAt r = Some ra" "int now - int ra < 10000"
    "rt_replacedByToken r = Some t'" "tok_truthy (Some t')"
    "find (\<lambda>x. rt_token x = t') (refreshToken w) = Some rr"
    "\<not> rt_isRevoked rr" "now < rt_expiresAt rr" "user w (rt_userId rr) = Some ru"
  shows "graceReplacement now r w = Some (rr, ru)"
proof -
  have "find (\<lambda>x. rt_token x = t' \<and> rt_isRevoked x = False) (refreshToken w) = Some rr"
    using find_conj [OF assms(5), of "\<lambda>x. rt_isRevoked x = False"] assms(6) by simp
  then have "db_refreshToken_findFirst_user
               (\<lambda>x. Some (rt_token x) = rt_replacedByToken r \<and> rt_isRevoked x = False) w
             = Some (rr, ru)"
    using assms(3,8) by (simp add: db_refreshToken_findFirst_user_def)
  then show ?thesis
    using assms(1,2,3,4,7) by (simp add: graceReplacement_def ROTATION_GRACE_MS_def)
qed

lemma graceReplacement_None_late:
  "rt_rotatedAt r = Some ra \<Longrightarrow> 10000 \<le> int now - int ra \<Longrightarrow> graceReplacement now r w = None"
  by (simp add: graceReplacement_def ROTATION_GRACE_MS_def)

lemma graceReplacement_None_never: "rt_rotatedAt r = None \<Longrightarrow> graceReplacement now r w = None"
  by (simp add: graceReplacement_def)

lemma graceReplacement_None_successor:
  assumes "\<And>x. x \<in> set (refreshToken w) \<Longrightarrow> Some (rt_token x) = rt_replacedByToken r \<Longrightarrow>
             rt_isRevoked x \<or> rt_expiresAt x \<le> now"
  shows "graceReplacement now r w = None"
proof (cases "find (\<lambda>x. Some (rt_token x) = rt_replacedByToken r \<and> rt_isRevoked x = False)
                (refreshToken w)")
  case None
  then show ?thesis
    by (simp add: graceReplacement_def db_refreshToken_findFirst_user_def split: option.splits)
next
  case (Some rr)
  from find_SomeD [OF Some] assms [of rr] have "rt_expiresAt rr \<le> now" by auto
  then show ?thesis using Some
    by (simp add: graceReplacement_def db_refreshToken_findFirst_user_def split: option.splits)
qed

section \<open>Evaluation of the concrete runs\<close>

lemmas demo_defs = demo_cfg_def demo_pf_def empty_world_def demo_user_def demo_world_def
  ent1_def ent2_def ent3_def demo_tok1_def demo_tok2_def demo_row1_def demo_row2_def
  demo_row1_rotated_def demo_world1_def demo_world2_def

lemmas demo_late_defs = demo_tok_late_def demo_row_late_def demo_row1_late_def
  demo_world_late_def

lemmas op_defs = generateTokenPair_def generateRefreshToken_def generateAccessToken_def
  jwt_sign_def db_refreshToken_create_def generateDeviceFingerprint_def or_str_def or_opt_def
  truthy_def rotateRefreshToken_def db_refreshToken_findFirst_user_def
  db_refreshToken_update_def db_refreshToken_updateMany_def graceReplacement_def
  ROTATION_GRACE_MS_def revokeTokenFamily_def createSecurityAlert_forget_def
  createSecurityAlert_def alert_metadata_def revokeRefreshToken_def Let_def

text \<open>
The demo rows are what the operations produce: a login at time 0, then a rotation
  of its refresh token at time 1000.
\<close>

lemma demo_login:
  "generateTokenPair demo_cfg demo_pf ent1 0 ''u1'' ''ann@example.com'' ''Ann''
     (Some ''UA'') (Some ''10.0.0.1'') None demo_world
   = (Inr \<lparr>accessToken = Jwt ''ka'' (AccessClaims ''u1'' ''ann@example.com'' ''Ann'') 0 300,
           refreshToken_of = demo_tok1\<rparr>, demo_world1)"
  by (simp add: demo_defs op_defs)

lemma demo_rotation:
  "rotateRefreshToken demo_cfg demo_pf ent2 1000 demo_tok1 (Some ''UA'') (Some ''10.0.0.1'')
     (Some ''hB:O:UA'') demo_world1
   = (Inr \<lparr>accessToken = Jwt ''ka'' (AccessClaims ''u1'' ''ann@example.com'' ''Ann'') 1 301,
           refreshToken_of = demo_tok2\<rparr>, demo_world2)"
  by (simp add: demo_defs op_defs)

lemma demo_presentable1:
  "presentable demo_cfg 1000 demo_tok1 demo_world1 demo_row1 demo_user"
  by (simp add: presentable_def demo_defs)

lemma demo_presentable2:
  "presentable demo_cfg 5000 demo_tok1 demo_world2 demo_row1_rotated demo_user"
  "presentable demo_cfg 20000 demo_tok1 demo_world2 demo_row1_rotated demo_user"
  by (simp_all add: presentable_def demo_defs)

lemma demo_fresh: "fresh ent2 demo_world1" "fresh ent3 demo_world2"
  by (simp_all add: fresh_def demo_defs)

section \<open>Rotation of a freshly issued token (C1)\<close>

text \<open>
  Claim C1. Let \<^verbatim>\<open>generateTokenPair\<close> succeed and store the row \<open>old\<close> for its
  refresh token. In any later world in which that row and the owner are unchanged (no
  revocation, no rotation, no epoch bump), rotating the token before its expiry with the
  fingerprint it was issued for succeeds, provided the random bytes drawn are fresh (and
  hex strings are not empty). The call returns a new access token and a new refresh
  token whose row \<open>new\<close> is stored with the family, the epoch at issue and the
  fingerprint of \<open>old\<close>; the old row gets the new token as successor reference,
  \<^verbatim>\<open>rotatedAt\<close> and \<^verbatim>\<open>lastUsedAt\<close> set to the time of the call, and stays
  unrevoked.
\<close>

theorem issue_then_rotate:
  assumes issue: "generateTokenPair cfg pf ent0 t0 uid email name deviceInfo0 ip0 fp0 w0
                    = (Inr pair, w1)"
    and hexfam: "e_family ent0 \<noteq> []"
    and hexfp: "generateDeviceFingerprint pf deviceInfo0 \<noteq> []"
    and same_row: "find (\<lambda>x. rt_token x = refreshToken_of pair) (refreshToken w)
                     = find (\<lambda>x. rt_token x = refreshToken_of pair) (refreshToken w1)"
    and same_user: "user w uid = user w1 uid"
    and fr: "fresh ent w"
    and time: "t1 div 1000 < t0 div 1000 + refreshTokenExpiry cfg" "t1 \<le> t0 + 15 * 86400000"
    and match: "reqfp = Some (or_str fp0 (generateDeviceFingerprint pf deviceInfo0))"
    and old: "find (\<lambda>x. rt_token x = refreshToken_of pair) (refreshToken w1) = Some old"
    and usr: "user w uid = Some u"
    and new: "new = minted_row cfg pf ent t1 uid deviceInfo ip (Some (rt_familyId old)) reqfp u"
  shows "fst (rotateRefreshToken cfg pf ent t1 (refreshToken_of pair) deviceInfo ip reqfp w)
             = Inr \<lparr>accessToken = generateAccessToken cfg t1 uid (u_email u) (or_str (u_name u) []),
                    refreshToken_of = rt_token new\<rparr>
         \<and> rt_token new \<noteq> refreshToken_of pair
         \<and> find (\<lambda>x. rt_token x = rt_token new)
              (refreshToken (snd (rotateRefreshToken cfg pf ent t1 (refreshToken_of pair)
                 deviceInfo ip reqfp w))) = Some new
         \<and> rt_familyId new = rt_familyId old
         \<and> rt_tokenVersion new = rt_tokenVersion old
         \<and> rt_deviceFingerprint new = rt_deviceFingerprint old
         \<and> find (\<lambda>x. rt_token x = refreshToken_of pair)
              (refreshToken (snd (rotateRefreshToken cfg pf ent t1 (refreshToken_of pair)
                 deviceInfo ip reqfp w)))
             = Some (old\<lparr>rt_replacedByToken := Some (rt_token new),
                         rt_rotatedAt := Some t1, rt_lastUsedAt := Some t1\<rparr>)
         \<and> rt_isRevoked old = False"
proof -
  let ?tok = "refreshToken_of pair"
  obtain tok0 where g: "generateRefreshToken cfg pf ent0 t0 uid deviceInfo0 ip0 None fp0 w0
                          = (Inr tok0, w1)" and tok0: "?tok = tok0"
    using issue
    by (auto simp: generateTokenPair_def Let_def split: prod.splits sum.splits)
  obtain u0 where u0: "user w0 uid = Some u0"
    and tokeq0: "tok0 = rt_token (minted_row cfg pf ent0 t0 uid deviceInfo0 ip0 None fp0 u0)"
    and w10: "w1 = w0\<lparr>refreshToken := refreshToken w0 @
                      [minted_row cfg pf ent0 t0 uid deviceInfo0 ip0 None fp0 u0]\<rparr>"
    and notin: "tok0 \<notin> rt_token ` set (refreshToken w0)"
    using generateRefreshToken_Inr [OF g] by blast
  have "user w1 uid = Some u0" using u0 by (simp add: w10)
  then have uu: "u0 = u" using usr same_user by simp
  note u = u0 [unfolded uu] and tokeq = tokeq0 [unfolded uu] and w1 = w10 [unfolded uu]
  let ?old = "minted_row cfg pf ent0 t0 uid deviceInfo0 ip0 None fp0 u"
  have f1: "find (\<lambda>x. rt_token x = ?tok) (refreshToken w1) = Some ?old"
    using notin tok0 tokeq by (simp add: w1 find_token_append)
  have uw: "user w uid = Some u" by (rule usr)
  have oldeq: "old = ?old" using old f1 by simp
  have fam: "rt_familyId ?old = e_family ent0" by (simp add: minted_row_def or_str_def)
  have fpo: "rt_deviceFingerprint ?old = reqfp" by (simp add: minted_row_def match)
  have fpne: "or_str fp0 (generateDeviceFingerprint pf deviceInfo0) \<noteq> []"
    by (rule or_str_nonempty [OF hexfp])
  have pres: "presentable cfg t1 ?tok w ?old u"
    using f1 same_row uw time tok0 tokeq
    by (simp add: presentable_def minted_row_def jwt_sign_def)
  have ep: "\<not> rt_tokenVersion ?old < u_tokenVersion u" by (simp add: minted_row_def)
  have nr: "\<not> rt_isRevoked ?old" "\<not> tok_truthy (rt_replacedByToken ?old)"
    by (simp_all add: minted_row_def)
  have nm: "\<not> (truthy (rt_deviceFingerprint ?old) \<and> truthy reqfp
               \<and> rt_deviceFingerprint ?old \<noteq> reqfp)"
    using fpo by simp
  let ?fpn = "or_opt (rt_deviceFingerprint ?old) reqfp"
  let ?new = "minted_row cfg pf ent t1 (rt_userId ?old) deviceInfo ip (Some (rt_familyId ?old)) ?fpn u"
  have uid': "rt_userId ?old = uid" by (simp add: minted_row_def)
  have gen: "generateRefreshToken cfg pf ent t1 (rt_userId ?old) deviceInfo ip
               (Some (rt_familyId ?old)) ?fpn w
             = (Inr (rt_token ?new), w\<lparr>refreshToken := refreshToken w @ [?new]\<rparr>)"
    by (rule generateRefreshToken_fresh [OF fr]) (simp add: uid' uw)
  let ?w' = "db_refreshToken_update (rt_id ?old)
               (\<lambda>x. x\<lparr>rt_replacedByToken := Some (rt_token ?new),
                      rt_rotatedAt := Some t1, rt_lastUsedAt := Some t1\<rparr>)
               (w\<lparr>refreshToken := refreshToken w @ [?new]\<rparr>)"
  let ?pair' = "\<lparr>accessToken = generateAccessToken cfg t1 (rt_userId ?old) (u_email u)
                     (or_str (u_name u) []),
                  refreshToken_of = rt_token ?new\<rparr>"
  have rot: "rotateRefreshToken cfg pf ent t1 ?tok deviceInfo ip reqfp w = (Inr ?pair', ?w')"
    using rotate_proceeds [OF pres ep nr nm, of pf ent deviceInfo ip] gen by simp
  note st = rotate_happy_state [OF pres fr refl refl, of pf deviceInfo ip ?fpn]
  have famn: "rt_familyId ?new = rt_familyId ?old"
    using hexfam by (simp add: minted_row_def or_str_def)
  have tvn: "rt_tokenVersion ?new = rt_tokenVersion ?old" by (simp add: minted_row_def)
  have fpn: "rt_deviceFingerprint ?new = rt_deviceFingerprint ?old"
    using fpne by (simp add: minted_row_def or_opt_def truthy_def or_str_def)
  have ne: "rt_token ?new \<noteq> ?tok"
  proof
    assume "rt_token ?new = ?tok"
    moreover have "?old \<in> set (refreshToken w)"
      using find_SomeD [of "\<lambda>x. rt_token x = ?tok" "refreshToken w" ?old] same_row f1 by simp
    ultimately have "tok_jti (rt_token ?new) \<in> tok_jti ` rt_token ` set (refreshToken w)"
      using tok0 tokeq by (metis imageI)
    then show False using fr by (simp add: fresh_def minted_row_def jwt_sign_def)
  qed
  have fpeq: "?fpn = reqfp" using fpo by (simp add: or_opt_def)
  have neweq: "new = ?new" unfolding new oldeq fpeq by (simp add: uid')
  show ?thesis
    unfolding neweq oldeq
    using rot st(1,2) famn tvn fpn ne nr(1) uid' by simp
qed

theorem issue_then_rotate_witness:
  "generateTokenPair demo_cfg demo_pf ent1 0 ''u1'' ''ann@example.com'' ''Ann''
     (Some ''UA'') (Some ''10.0.0.1'') None demo_world
   = (Inr \<lparr>accessToken = Jwt ''ka'' (AccessClaims ''u1'' ''ann@example.com'' ''Ann'') 0 300,
           refreshToken_of = demo_tok1\<rparr>, demo_world1)
   \<and> fresh ent2 demo_world1
   \<and> find (\<lambda>x. rt_token x = demo_tok1) (refreshToken demo_world1) = Some demo_row1
   \<and> fst (rotateRefreshToken demo_cfg demo_pf ent2 1000 demo_tok1 (Some ''UA'')
            (Some ''10.0.0.1'') (Some ''hB:O:UA'') demo_world1)
       = Inr \<lparr>accessToken = Jwt ''ka'' (AccessClaims ''u1'' ''ann@example.com'' ''Ann'') 1 301,
              refreshToken_of = demo_tok2\<rparr>
   \<and> find (\<lambda>x. rt_token x = demo_tok2)
        (refreshToken (snd (rotateRefreshToken demo_cfg demo_pf ent2 1000 demo_tok1 (Some ''UA'')
            (Some ''10.0.0.1'') (Some ''hB:O:UA'') demo_world1))) = Some demo_row2
   \<and> find (\<lambda>x. rt_token x = demo_tok1)
        (refreshToken (snd (rotateRefreshToken demo_cfg demo_pf ent2 1000 demo_tok1 (Some ''UA'')
            (Some ''10.0.0.1'') (Some ''hB:O:UA'') demo_world1))) = Some demo_row1_rotated
   \<and> rt_familyId demo_row2 = rt_familyId demo_row1
   \<and> rt_tokenVersion demo_row2 = rt_tokenVersion demo_row1
   \<and> rt_deviceFingerprint demo_row2 = rt_deviceFingerprint demo_row1"
proof -
  let ?pair = "\<lparr>accessToken = Jwt ''ka'' (AccessClaims ''u1'' ''ann@example.com'' ''Ann'') 0 300,
           refreshToken_of = demo_tok1\<rparr>"
  have h1: "generateTokenPair demo_cfg demo_pf ent1 0 ''u1'' ''ann@example.com'' ''Ann''
     (Some ''UA'') (Some ''10.0.0.1'') None demo_world = (Inr ?pair, demo_world1)"
    by (rule demo_login)
  have h2: "e_family ent1 \<noteq> []" by (simp add: ent1_def)
  have h3: "generateDeviceFingerprint demo_pf (Some ''UA'') \<noteq> []"
    by (simp add: generateDeviceFingerprint_def demo_pf_def or_str_def)
  have h4: "find (\<lambda>x. rt_token x = refreshToken_of ?pair) (refreshToken demo_world1)
          = find (\<lambda>x. rt_token x = refreshToken_of ?pair) (refreshToken demo_world1)"
    by simp
  have h5: "user demo_world1 ''u1'' = user demo_world1 ''u1''" by simp
  have h6: "fresh ent2 demo_world1" by (rule demo_fresh)
  have h7: "(1000::nat) div 1000 < 0 div 1000 + refreshTokenExpiry demo_cfg"
    "(1000::nat) \<le> 0 + 15 * 86400000"
    by (simp_all add: demo_cfg_def)
  have h8: "Some ''hB:O:UA'' = Some (or_str None (generateDeviceFingerprint demo_pf (Some ''UA'')))"
    by (simp add: generateDeviceFingerprint_def demo_pf_def or_str_def)
  have h9: "find (\<lambda>x. rt_token x = refreshToken_of ?pair) (refreshToken demo_world1)
              = Some demo_row1"
    by (simp add: demo_defs)
  have h10: "user demo_world1 ''u1'' = Some demo_user" by (simp add: demo_defs)
  have h11: "demo_row2 = minted_row demo_cfg demo_pf ent2 1000 ''u1'' (Some ''UA'')
               (Some ''10.0.0.1'') (Some (rt_familyId demo_row1)) (Some ''hB:O:UA'') demo_user"
    by (simp add: minted_row_def demo_defs jwt_sign_def generateDeviceFingerprint_def or_str_def)
  have t2: "rt_token demo_row2 = demo_tok2" by (simp add: demo_row2_def)
  have acc: "generateAccessToken demo_cfg 1000 ''u1'' (u_email demo_user) (or_str (u_name demo_user) [])
           = Jwt ''ka'' (AccessClaims ''u1'' ''ann@example.com'' ''Ann'') 1 301"
    by (simp add: generateAccessToken_def jwt_sign_def demo_cfg_def demo_user_def or_str_def)
  have rr: "demo_row1\<lparr>rt_replacedByToken := Some demo_tok2, rt_rotatedAt := Some 1000,
              rt_lastUsedAt := Some 1000\<rparr> = demo_row1_rotated"
    by (simp add: demo_row1_rotated_def)
  show ?thesis
    using h1 h6 h9
      issue_then_rotate [OF h1 h2 h3 h4 h5 h6 h7 h8 h9 h10 h11]
    by (simp add: t2 acc rr)
qed

section \<open>Reuse detection (C2)\<close>

text \<open>
  Claim C2 as stated fails for a revoked row: the grace branch is entered for a revoked
  row as well as for a rotated one. After the login and the rotation of the demo run, the
  old token is revoked alone (\<^verbatim>\<open>revokeRefreshToken\<close>, as the logout handler does) and
  presented again 4 seconds after its rotation: the call succeeds with the existing
  successor, and nothing is revoked or alerted.
\<close>

theorem revoked_in_grace_counterexample:
  "refreshToken (revokeRefreshToken demo_tok1 demo_world2)
     = [demo_row1_rotated\<lparr>rt_isRevoked := True\<rparr>, demo_row2]
   \<and> rt_token demo_row1_rotated = demo_tok1
   \<and> rotateRefreshToken demo_cfg demo_pf ent3 5000 demo_tok1 (Some ''UA'') (Some ''10.0.0.1'')
        (Some ''hB:O:UA'') (revokeRefreshToken demo_tok1 demo_world2)
       = (Inr \<lparr>accessToken = Jwt ''ka'' (AccessClaims ''u1'' ''ann@example.com'' ''Ann'') 5 305,
               refreshToken_of = demo_tok2\<rparr>, revokeRefreshToken demo_tok1 demo_world2)"
  by (simp add: demo_defs op_defs)

text \<open>
  Claim C2, amended. For a presented token that passes the signature, lookup, expiry and
  epoch checks and whose row is revoked or carries a successor reference: if the grace
  branch does not apply (the row was never rotated, or rotated 10 seconds ago or more,
  or the successor it refers to is missing, revoked or expired), the call fails with
  the reuse error, every row of the family is revoked afterwards (the
  other rows are unchanged), and exactly one \<open>token_reuse\<close> alert for the owner is
  added.
\<close>

theorem reuse_revokes_family:
  assumes pres: "presentable cfg now tok w r u"
    and ep: "\<not> rt_tokenVersion r < u_tokenVersion u"
    and used: "rt_isRevoked r \<or> tok_truthy (rt_replacedByToken r)"
    and nograce: "(case rt_rotatedAt r of None \<Rightarrow> True | Some ra \<Rightarrow> 10000 \<le> int now - int ra)
                \<or> (\<forall>x \<in> set (refreshToken w). Some (rt_token x) = rt_replacedByToken r \<longrightarrow>
                      rt_isRevoked x \<or> rt_expiresAt x \<le> now)"
  shows "fst (rotateRefreshToken cfg pf ent now tok deviceInfo ip fp w) = Inl TokenReuseDetected
       \<and> refreshToken (snd (rotateRefreshToken cfg pf ent now tok deviceInfo ip fp w))
           = family_revoked (rt_familyId r) (refreshToken w)
       \<and> (\<forall>x \<in> set (refreshToken (snd (rotateRefreshToken cfg pf ent now tok deviceInfo ip fp w))).
            rt_familyId x = rt_familyId r \<longrightarrow> rt_isRevoked x)
       \<and> securityAlert (snd (rotateRefreshToken cfg pf ent now tok deviceInfo ip fp w))
           = securityAlert w @
             [\<lparr>al_userId = rt_userId r, al_alertType = token_reuse,
               al_message = token_reuse_message,
               al_metadata = alert_metadata (rt_familyId r) ip deviceInfo,
               al_isRead = False, al_isDismissed = False, al_createdAt = now\<rparr>]"
proof -
  have u: "user w (rt_userId r) = Some u" using pres by (simp add: presentable_def)
  have ng: "graceReplacement now r w = None"
    using nograce
  proof
    assume "case rt_rotatedAt r of None \<Rightarrow> True | Some ra \<Rightarrow> 10000 \<le> int now - int ra"
    then show ?thesis
      by (cases "rt_rotatedAt r")
        (simp_all add: graceReplacement_None_never graceReplacement_None_late)
  next
    assume "\<forall>x \<in> set (refreshToken w). Some (rt_token x) = rt_replacedByToken r \<longrightarrow>
              rt_isRevoked x \<or> rt_expiresAt x \<le> now"
    then show ?thesis by (intro graceReplacement_None_successor) blast
  qed
  note rot = rotate_reuse [OF pres ep used ng, of pf ent deviceInfo ip fp]
  note st = alert_after_family_revocation [OF u, of now token_reuse token_reuse_message
      "alert_metadata (rt_familyId r) ip deviceInfo" "rt_familyId r"]
  have c1: "fst (rotateRefreshToken cfg pf ent now tok deviceInfo ip fp w) = Inl TokenReuseDetected"
    by (simp add: rot)
  have c2: "refreshToken (snd (rotateRefreshToken cfg pf ent now tok deviceInfo ip fp w))
           = family_revoked (rt_familyId r) (refreshToken w)"
    by (simp add: rot st(1))
  have c3: "\<forall>x \<in> set (refreshToken (snd (rotateRefreshToken cfg pf ent now tok deviceInfo ip fp w))).
            rt_familyId x = rt_familyId r \<longrightarrow> rt_isRevoked x"
    unfolding c2 using family_revoked_all by blast
  have c4: "securityAlert (snd (rotateRefreshToken cfg pf ent now tok deviceInfo ip fp w))
           = securityAlert w @
             [\<lparr>al_userId = rt_userId r, al_alertType = token_reuse,
               al_message = token_reuse_message,
               al_metadata = alert_metadata (rt_familyId r) ip deviceInfo,
               al_isRead = False, al_isDismissed = False, al_createdAt = now\<rparr>]"
    by (simp add: rot st(2))
  show ?thesis using c1 c2 c3 c4 by blast
qed

theorem reuse_revokes_family_witness:
  "presentable demo_cfg 20000 demo_tok1 demo_world2 demo_row1_rotated demo_user
   \<and> tok_truthy (rt_replacedByToken demo_row1_rotated)
   \<and> rt_rotatedAt demo_row1_rotated = Some 1000
   \<and> fst (rotateRefreshToken demo_cfg demo_pf ent3 20000 demo_tok1 (Some ''UA'')
            (Some ''10.0.0.1'') (Some ''hB:O:UA'') demo_world2) = Inl TokenReuseDetected
   \<and> refreshToken (snd (rotateRefreshToken demo_cfg demo_pf ent3 20000 demo_tok1 (Some ''UA'')
            (Some ''10.0.0.1'') (Some ''hB:O:UA'') demo_world2))
       = [demo_row1_rotated\<lparr>rt_isRevoked := True\<rparr>, demo_row2\<lparr>rt_isRevoked := True\<rparr>]
   \<and> map al_alertType (securityAlert (snd (rotateRefreshToken demo_cfg demo_pf ent3 20000
            demo_tok1 (Some ''UA'') (Some ''10.0.0.1'') (Some ''hB:O:UA'') demo_world2)))
       = [token_reuse]"
proof -
  have h1: "presentable demo_cfg 20000 demo_tok1 demo_world2 demo_row1_rotated demo_user"
    by (rule demo_presentable2)
  have h2: "\<not> rt_tokenVersion demo_row1_rotated < u_tokenVersion demo_user"
    by (simp add: demo_defs)
  have t: "tok_truthy (rt_replacedByToken demo_row1_rotated)" by (simp add: demo_defs)
  then have h3: "rt_isRevoked demo_row1_rotated \<or> tok_truthy (rt_replacedByToken demo_row1_rotated)"
    by simp
  have ra: "rt_rotatedAt demo_row1_rotated = Some 1000" by (simp add: demo_defs)
  have h4: "(case rt_rotatedAt demo_row1_rotated of None \<Rightarrow> True
              | Some ra \<Rightarrow> 10000 \<le> int 20000 - int ra)
            \<or> (\<forall>x \<in> set (refreshToken demo_world2).
                  Some (rt_token x) = rt_replacedByToken demo_row1_rotated \<longrightarrow>
                  rt_isRevoked x \<or> rt_expiresAt x \<le> 20000)"
    by (simp add: ra)
  have rows: "family_revoked (rt_familyId demo_row1_rotated) (refreshToken demo_world2)
      = [demo_row1_rotated\<lparr>rt_isRevoked := True\<rparr>, demo_row2\<lparr>rt_isRevoked := True\<rparr>]"
    by (simp add: family_revoked_def demo_defs)
  have al: "securityAlert demo_world2 = []" by (simp add: demo_defs)
  show ?thesis
    using h1 t ra
      reuse_revokes_family [OF h1 h2 h3 h4, of demo_pf ent3 "Some ''UA''" "Some ''10.0.0.1''"
        "Some ''hB:O:UA''"]
    by (simp add: rows al)
qed

section \<open>The grace window (C3)\<close>

lemma demo_rotation_late:
  "rotateRefreshToken demo_cfg demo_pf ent2 1295995000 demo_tok1 (Some ''UA'')
     (Some ''10.0.0.1'') (Some ''hB:O:UA'') demo_world1
   = (Inr \<lparr>accessToken =
             Jwt ''ka'' (AccessClaims ''u1'' ''ann@example.com'' ''Ann'') 1295995 1296295,
           refreshToken_of = demo_tok_late\<rparr>, demo_world_late)"
  by (simp add: demo_defs demo_late_defs op_defs)

text \<open>
  Claim C3 as stated fails: a record rotated less than 10 seconds ago with a stored,
  non-revoked, unexpired successor is not enough, because the signature, expiry and epoch
  checks of \<^verbatim>\<open>rotateRefreshToken\<close> come before the grace branch.

  \<^item> The token of the demo login is rotated at 1295995000, five seconds before it
    expires, and presented again 5.5 seconds later. Its record was rotated less than 10
    seconds ago and the successor is stored, non-revoked and unexpired, yet the call
    fails with the expired-token error.
  \<^item> The token rotated at 1000 is presented again at 5000 in the store that the first
    write of \<^verbatim>\<open>incrementUserTokenVersion\<close> has left (the epoch is bumped, the rows are
    not yet revoked): the successor is stored, non-revoked and unexpired, yet the call
    fails with the session-invalidated error and revokes the record.
\<close>

theorem grace_checks_first_counterexample:
  "fst (rotateRefreshToken demo_cfg demo_pf ent2 1295995000 demo_tok1 (Some ''UA'')
          (Some ''10.0.0.1'') (Some ''hB:O:UA'') demo_world1)
     = Inr \<lparr>accessToken =
              Jwt ''ka'' (AccessClaims ''u1'' ''ann@example.com'' ''Ann'') 1295995 1296295,
            refreshToken_of = demo_tok_late\<rparr>
   \<and> snd (rotateRefreshToken demo_cfg demo_pf ent2 1295995000 demo_tok1 (Some ''UA'')
          (Some ''10.0.0.1'') (Some ''hB:O:UA'') demo_world1) = demo_world_late
   \<and> find (\<lambda>x. rt_token x = demo_tok1) (refreshToken demo_world_late) = Some demo_row1_late
   \<and> rt_rotatedAt demo_row1_late = Some 1295995000
   \<and> int 1296000500 - int 1295995000 < ROTATION_GRACE_MS
   \<and> rt_replacedByToken demo_row1_late = Some demo_tok_late
   \<and> find (\<lambda>x. rt_token x = demo_tok_late) (refreshToken demo_world_late) = Some demo_row_late
   \<and> rt_isRevoked demo_row_late = False
   \<and> 1296000500 < rt_expiresAt demo_row_late
   \<and> rotateRefreshToken demo_cfg demo_pf ent3 1296000500 demo_tok1 (Some ''UA'')
        (Some ''10.0.0.1'') (Some ''hB:O:UA'') demo_world_late
       = (Inl (InvalidOrExpiredRefreshToken JwtExpired), demo_world_late)
   \<and> refreshToken (snd (db_user_update_tokenVersion ''u1'' demo_world2))
       = [demo_row1_rotated, demo_row2]
   \<and> rt_rotatedAt demo_row1_rotated = Some 1000
   \<and> int 5000 - int 1000 < ROTATION_GRACE_MS
   \<and> rt_replacedByToken demo_row1_rotated = Some (rt_token demo_row2)
   \<and> rt_isRevoked demo_row2 = False
   \<and> 5000 < rt_expiresAt demo_row2
   \<and> rotateRefreshToken demo_cfg demo_pf ent3 5000 demo_tok1 (Some ''UA'')
        (Some ''10.0.0.1'') (Some ''hB:O:UA'')
        (snd (db_user_update_tokenVersion ''u1'' demo_world2))
       = (Inl SessionInvalidated,
          (snd (db_user_update_tokenVersion ''u1'' demo_world2))
            \<lparr>refreshToken := [demo_row1_rotated\<lparr>rt_isRevoked := True\<rparr>, demo_row2]\<rparr>)"
proof -
  have late: "rotateRefreshToken demo_cfg demo_pf ent3 1296000500 demo_tok1 (Some ''UA'')
        (Some ''10.0.0.1'') (Some ''hB:O:UA'') demo_world_late
       = (Inl (InvalidOrExpiredRefreshToken JwtExpired), demo_world_late)"
    by (simp add: rotateRefreshToken_def demo_cfg_def demo_tok1_def)
  have rows: "refreshToken (snd (db_user_update_tokenVersion ''u1'' demo_world2))
       = [demo_row1_rotated, demo_row2]"
    by (simp add: db_user_update_tokenVersion_def demo_world2_def demo_world_def)
  have bumped: "rotateRefreshToken demo_cfg demo_pf ent3 5000 demo_tok1 (Some ''UA'')
        (Some ''10.0.0.1'') (Some ''hB:O:UA'')
        (snd (db_user_update_tokenVersion ''u1'' demo_world2))
       = (Inl SessionInvalidated,
          (snd (db_user_update_tokenVersion ''u1'' demo_world2))
            \<lparr>refreshToken := [demo_row1_rotated\<lparr>rt_isRevoked := True\<rparr>, demo_row2]\<rparr>)"
    by (simp add: db_user_update_tokenVersion_def demo_defs op_defs)
  have facts: "find (\<lambda>x. rt_token x = demo_tok1) (refreshToken demo_world_late)
                 = Some demo_row1_late"
    "rt_rotatedAt demo_row1_late = Some 1295995000"
    "rt_replacedByToken demo_row1_late = Some demo_tok_late"
    "find (\<lambda>x. rt_token x = demo_tok_late) (refreshToken demo_world_late) = Some demo_row_late"
    "rt_isRevoked demo_row_late = False" "1296000500 < rt_expiresAt demo_row_late"
    "rt_rotatedAt demo_row1_rotated = Some 1000"
    "rt_replacedByToken demo_row1_rotated = Some (rt_token demo_row2)"
    "rt_isRevoked demo_row2 = False" "5000 < rt_expiresAt demo_row2"
    by (simp_all add: demo_defs demo_late_defs)
  show ?thesis
    using late rows bumped facts by (simp add: demo_rotation_late ROTATION_GRACE_MS_def)
qed

text \<open>
  Claim C3, amended. For a presented token that passes the checks before the reuse
  check (it verifies as a refresh token, its record is stored with its owner and
  unexpired, and the record was not issued below the owner's current epoch): if the
  record was rotated less than 10 seconds ago and the successor it refers to is stored
  with its owner, not revoked and not expired, the call succeeds with a freshly minted
  access token for the successor's owner and the existing successor token, and the world
  is left as it was: no record is created or revoked and no alert is raised.
\<close>

theorem grace_window_returns_successor:
  assumes verif: "case jwt_verify (refreshTokenSecret cfg) now tok of
                    Inl e \<Rightarrow> False | Inr d \<Rightarrow> is_refresh d"
    and stored: "find (\<lambda>x. rt_token x = tok) (refreshToken w) = Some r"
    and owner: "user w (rt_userId r) = Some u"
    and unexp: "\<not> now > rt_expiresAt r"
    and epoch: "\<not> rt_tokenVersion r < u_tokenVersion u"
    and rot: "rt_rotatedAt r = Some ra" "int now - int ra < 10000"
    and succ: "rt_replacedByToken r = Some t'" "tok_truthy (Some t')"
    and rec: "find (\<lambda>x. rt_token x = t') (refreshToken w) = Some rr"
    and sowner: "user w (rt_userId rr) = Some ru"
    and valid: "\<not> rt_isRevoked rr" "now < rt_expiresAt rr"
  shows "rotateRefreshToken cfg pf ent now tok deviceInfo ip fp w =
           (Inr \<lparr>accessToken = generateAccessToken cfg now (rt_userId rr) (u_email ru)
                    (or_str (u_name ru) []),
                 refreshToken_of = t'\<rparr>, w)"
proof -
  have rrt: "rt_token rr = t'" using find_SomeD [OF rec] by simp
  have pres: "presentable cfg now tok w r u"
    using verif stored owner unexp by (simp add: presentable_def)
  have g: "graceReplacement now r w = Some (rr, ru)"
    by (rule graceReplacement_Some [OF rot succ rec valid sowner])
  show ?thesis
    using rotate_grace [OF pres epoch _ g, of pf ent deviceInfo ip fp] succ rrt by simp
qed

theorem grace_window_returns_successor_witness:
  "find (\<lambda>x. rt_token x = demo_tok1) (refreshToken demo_world2) = Some demo_row1_rotated
   \<and> rt_rotatedAt demo_row1_rotated = Some 1000
   \<and> rt_replacedByToken demo_row1_rotated = Some demo_tok2
   \<and> find (\<lambda>x. rt_token x = demo_tok2) (refreshToken demo_world2) = Some demo_row2
   \<and> rotateRefreshToken demo_cfg demo_pf ent3 5000 demo_tok1 (Some ''UA'') (Some ''10.0.0.1'')
        (Some ''hB:O:UA'') demo_world2
       = (Inr \<lparr>accessToken = Jwt ''ka'' (AccessClaims ''u1'' ''ann@example.com'' ''Ann'') 5 305,
               refreshToken_of = demo_tok2\<rparr>, demo_world2)"
proof -
  have h1: "case jwt_verify (refreshTokenSecret demo_cfg) 5000 demo_tok1 of
              Inl e \<Rightarrow> False | Inr d \<Rightarrow> is_refresh d"
    by (simp add: demo_defs)
  have h2: "find (\<lambda>x. rt_token x = demo_tok1) (refreshToken demo_world2) = Some demo_row1_rotated"
    by (simp add: demo_defs)
  have o1: "user demo_world2 (rt_userId demo_row1_rotated) = Some demo_user"
    by (simp add: demo_defs)
  have h2': "\<not> 5000 > rt_expiresAt demo_row1_rotated" by (simp add: demo_defs)
  have ep: "\<not> rt_tokenVersion demo_row1_rotated < u_tokenVersion demo_user"
    by (simp add: demo_defs)
  have h3: "rt_rotatedAt demo_row1_rotated = Some 1000" "int 5000 - int 1000 < 10000"
    by (simp_all add: demo_defs)
  have h4: "rt_replacedByToken demo_row1_rotated = Some demo_tok2" "tok_truthy (Some demo_tok2)"
    by (simp_all add: demo_defs)
  have h5: "find (\<lambda>x. rt_token x = demo_tok2) (refreshToken demo_world2) = Some demo_row2"
    by (simp add: demo_defs)
  have o2: "user demo_world2 (rt_userId demo_row2) = Some demo_user"
    by (simp add: demo_defs)
  have h6: "\<not> rt_isRevoked demo_row2" "5000 < rt_expiresAt demo_row2"
    by (simp_all add: demo_defs)
  have acc: "generateAccessToken demo_cfg 5000 (rt_userId demo_row2) (u_email demo_user)
               (or_str (u_name demo_user) [])
           = Jwt ''ka'' (AccessClaims ''u1'' ''ann@example.com'' ''Ann'') 5 305"
    by (simp add: generateAccessToken_def jwt_sign_def demo_cfg_def demo_user_def or_str_def
          demo_row2_def)
  show ?thesis
    using h2 h3(1) h4(1) h5 acc
      grace_window_returns_successor [OF h1 h2 o1 h2' ep h3 h4 h5 o2 h6,
        of demo_pf ent3 "Some ''UA''" "Some ''10.0.0.1''" "Some ''hB:O:UA''"]
    by simp
qed

section \<open>Global revocation takes precedence (C4)\<close>

text \<open>
  Claim C4 as stated fails: not every token issued at a lower epoch gets the
  session-invalidated error, because the signature and expiry checks come before the
  epoch check. After \<^verbatim>\<open>incrementUserTokenVersion\<close> has bumped the demo principal to
  epoch 2, the token of the demo login (issued at epoch 1) is presented at 1296000000,
  when it has expired: the call fails with the expired-token error. In the store that
  the first write of the bump leaves, the same call fails the same way and the record
  stays unrevoked.
\<close>

theorem expired_before_epoch_counterexample:
  "fst (incrementUserTokenVersion ''u1'' demo_world1) = Inr 2
   \<and> user (snd (incrementUserTokenVersion ''u1'' demo_world1)) ''u1''
       = Some (demo_user\<lparr>u_tokenVersion := 2\<rparr>)
   \<and> refreshToken (snd (incrementUserTokenVersion ''u1'' demo_world1))
       = [demo_row1\<lparr>rt_isRevoked := True\<rparr>]
   \<and> rt_token demo_row1 = demo_tok1
   \<and> rt_tokenVersion demo_row1 = 1
   \<and> rotateRefreshToken demo_cfg demo_pf ent2 1296000000 demo_tok1 (Some ''UA'')
        (Some ''10.0.0.1'') (Some ''hB:O:UA'') (snd (incrementUserTokenVersion ''u1'' demo_world1))
       = (Inl (InvalidOrExpiredRefreshToken JwtExpired),
          snd (incrementUserTokenVersion ''u1'' demo_world1))
   \<and> refreshToken (snd (db_user_update_tokenVersion ''u1'' demo_world1)) = [demo_row1]
   \<and> rt_isRevoked demo_row1 = False
   \<and> rotateRefreshToken demo_cfg demo_pf ent2 1296000000 demo_tok1 (Some ''UA'')
        (Some ''10.0.0.1'') (Some ''hB:O:UA'')
        (snd (db_user_update_tokenVersion ''u1'' demo_world1))
       = (Inl (InvalidOrExpiredRefreshToken JwtExpired),
          snd (db_user_update_tokenVersion ''u1'' demo_world1))"
proof -
  have u: "user demo_world1 ''u1'' = Some demo_user" by (simp add: demo_defs)
  have bump: "fst (incrementUserTokenVersion ''u1'' demo_world1) = Inr 2"
    "user (snd (incrementUserTokenVersion ''u1'' demo_world1)) ''u1''
       = Some (demo_user\<lparr>u_tokenVersion := 2\<rparr>)"
    "refreshToken (snd (incrementUserTokenVersion ''u1'' demo_world1))
       = [demo_row1\<lparr>rt_isRevoked := True\<rparr>]"
    "refreshToken (snd (db_user_update_tokenVersion ''u1'' demo_world1)) = [demo_row1]"
    unfolding increment_Some [OF u] user_update_Some [OF u]
    by (simp_all add: revokeAllUserTokens_def db_refreshToken_updateMany_def demo_defs)
  have expired: "rotateRefreshToken demo_cfg demo_pf ent2 1296000000 demo_tok1 (Some ''UA'')
        (Some ''10.0.0.1'') (Some ''hB:O:UA'') w
       = (Inl (InvalidOrExpiredRefreshToken JwtExpired), w)" for w
    by (simp add: rotateRefreshToken_def demo_cfg_def demo_tok1_def)
  show ?thesis
    using bump expired by (simp add: demo_row1_def)
qed

text \<open>
  Claim C4, amended. For a presented token that passes the checks before the epoch
  check (it verifies as a refresh token and its record is stored with its owner and
  unexpired): whenever the record was issued below the owner's current epoch, the call
  fails with the session-invalidated error and the store after it is the store before
  with that record marked revoked. In particular, for a record issued at or below the
  owner's epoch this holds once the epoch has been bumped, in the store that the first
  write of \<^verbatim>\<open>incrementUserTokenVersion\<close> leaves (rows not yet revoked) as in the store
  that its second write leaves. (A record below the epoch and not revoked also arises
  when a token is issued while the bump runs: \<^verbatim>\<open>generateRefreshToken\<close> reads the epoch
  before it writes the record.) Nothing is assumed about the record's revoked flag, its
  successor reference or its fingerprint, nor about the fingerprint of the request: the
  epoch check comes before the reuse and the fingerprint checks.
\<close>

theorem epoch_behind_invalidates:
  assumes verif: "case jwt_verify (refreshTokenSecret cfg) now tok of
                    Inl e \<Rightarrow> False | Inr d \<Rightarrow> is_refresh d"
    and stored: "find (\<lambda>x. rt_token x = tok) (refreshToken w) = Some r"
    and owner: "user w (rt_userId r) = Some u"
    and unexp: "\<not> now > rt_expiresAt r"
  shows "(rt_tokenVersion r < u_tokenVersion u \<longrightarrow>
            rotateRefreshToken cfg pf ent now tok deviceInfo ip fp w =
              (Inl SessionInvalidated,
               db_refreshToken_update (rt_id r) (\<lambda>x. x\<lparr>rt_isRevoked := True\<rparr>) w)
            \<and> find (\<lambda>x. rt_token x = tok)
                (refreshToken
                   (db_refreshToken_update (rt_id r) (\<lambda>x. x\<lparr>rt_isRevoked := True\<rparr>) w))
              = Some (r\<lparr>rt_isRevoked := True\<rparr>))
       \<and> (rt_tokenVersion r \<le> u_tokenVersion u \<longrightarrow>
            (\<forall>w'. w' = snd (db_user_update_tokenVersion (rt_userId r) w)
                   \<or> w' = snd (incrementUserTokenVersion (rt_userId r) w) \<longrightarrow>
               rotateRefreshToken cfg pf ent now tok deviceInfo ip fp w' =
                 (Inl SessionInvalidated,
                  db_refreshToken_update (rt_id r) (\<lambda>x. x\<lparr>rt_isRevoked := True\<rparr>) w')
               \<and> find (\<lambda>x. rt_token x = tok)
                   (refreshToken
                      (db_refreshToken_update (rt_id r) (\<lambda>x. x\<lparr>rt_isRevoked := True\<rparr>) w'))
                 = Some (r\<lparr>rt_isRevoked := True\<rparr>)))"
proof -
  let ?uid = "rt_userId r"
  let ?u' = "u\<lparr>u_tokenVersion := u_tokenVersion u + 1\<rparr>"
  define w1 where "w1 = snd (db_user_update_tokenVersion ?uid w)"
  define w2 where "w2 = snd (incrementUserTokenVersion ?uid w)"
  define r2 where "r2 = (if rt_isRevoked r then r else r\<lparr>rt_isRevoked := True\<rparr>)"
  have p0: "presentable cfg now tok w r u"
    using verif stored owner unexp by (simp add: presentable_def)
  have w1: "refreshToken w1 = refreshToken w" "user w1 ?uid = Some ?u'"
    by (simp_all add: w1_def user_update_Some [OF owner])
  have p1: "presentable cfg now tok w1 r ?u'"
    using verif stored unexp w1 by (simp add: presentable_def)
  have r2: "rt_id r2 = rt_id r" "rt_userId r2 = ?uid" "rt_tokenVersion r2 = rt_tokenVersion r"
    "rt_expiresAt r2 = rt_expiresAt r" "r2\<lparr>rt_isRevoked := True\<rparr> = r\<lparr>rt_isRevoked := True\<rparr>"
    by (simp_all add: r2_def)
  have rows2: "refreshToken w2 =
      map (\<lambda>x. if rt_userId x = ?uid \<and> rt_isRevoked x = False then x\<lparr>rt_isRevoked := True\<rparr> else x)
        (refreshToken w)"
    and u2: "user w2 ?uid = Some ?u'"
    by (simp_all add: w2_def increment_Some [OF owner] revokeAllUserTokens_def
          db_refreshToken_updateMany_def)
  have "find (\<lambda>x. rt_token x = tok) (refreshToken w2) =
        map_option
          (\<lambda>x. if rt_userId x = ?uid \<and> rt_isRevoked x = False then x\<lparr>rt_isRevoked := True\<rparr> else x)
          (find (\<lambda>x. rt_token x = tok) (refreshToken w))"
    unfolding rows2 by (rule find_map_same) simp
  then have f2: "find (\<lambda>x. rt_token x = tok) (refreshToken w2) = Some r2"
    using stored by (simp add: r2_def)
  have p2: "presentable cfg now tok w2 r2 ?u'"
    using verif f2 u2 unexp r2(2,4) by (simp add: presentable_def)
  have a: ?thesis if le: "rt_tokenVersion r \<le> u_tokenVersion u"
  proof -
    have lt: "rt_tokenVersion r < u_tokenVersion ?u'" "rt_tokenVersion r2 < u_tokenVersion ?u'"
      using le r2(3) by simp_all
    note m0 = epoch_behind_marks [OF p0, of pf ent deviceInfo ip fp]
    note m1 = epoch_behind_marks [OF p1 lt(1), of pf ent deviceInfo ip fp, folded w1_def]
    note m2 = epoch_behind_marks [OF p2 lt(2), of pf ent deviceInfo ip fp,
        unfolded r2(1) r2(5)]
    show ?thesis using m0 m1 m2 unfolding w1_def w2_def by blast
  qed
  have b: ?thesis if "\<not> rt_tokenVersion r \<le> u_tokenVersion u"
    using that by simp
  show ?thesis using a b by blast
qed

theorem epoch_behind_invalidates_witness:
  "rt_isRevoked demo_row2 = False
   \<and> find (\<lambda>x. rt_token x = demo_tok2)
       (refreshToken (snd (db_user_update_tokenVersion ''u1'' demo_world2))) = Some demo_row2
   \<and> rotateRefreshToken demo_cfg demo_pf ent3 2000 demo_tok2 (Some ''UA'') None (Some ''other'')
        (snd (db_user_update_tokenVersion ''u1'' demo_world2))
       = (Inl SessionInvalidated,
          db_refreshToken_update ''r2'' (\<lambda>x. x\<lparr>rt_isRevoked := True\<rparr>)
            (snd (db_user_update_tokenVersion ''u1'' demo_world2)))
   \<and> find (\<lambda>x. rt_token x = demo_tok2)
       (refreshToken (db_refreshToken_update ''r2'' (\<lambda>x. x\<lparr>rt_isRevoked := True\<rparr>)
          (snd (db_user_update_tokenVersion ''u1'' demo_world2))))
       = Some (demo_row2\<lparr>rt_isRevoked := True\<rparr>)
   \<and> rotateRefreshToken demo_cfg demo_pf ent3 2000 demo_tok2 (Some ''UA'') None (Some ''other'')
        (snd (incrementUserTokenVersion ''u1'' demo_world2))
       = (Inl SessionInvalidated,
          db_refreshToken_update ''r2'' (\<lambda>x. x\<lparr>rt_isRevoked := True\<rparr>)
            (snd (incrementUserTokenVersion ''u1'' demo_world2)))
   \<and> user (snd (db_user_update_tokenVersion ''u1'' demo_world2)) ''u1''
       = Some (demo_user\<lparr>u_tokenVersion := 2\<rparr>)
   \<and> rotateRefreshToken demo_cfg demo_pf ent3 2000 demo_tok1 (Some ''UA'') None (Some ''other'')
        (snd (db_user_update_tokenVersion ''u1'' demo_world2))
       = (Inl SessionInvalidated,
          db_refreshToken_update ''r1'' (\<lambda>x. x\<lparr>rt_isRevoked := True\<rparr>)
            (snd (db_user_update_tokenVersion ''u1'' demo_world2)))"
proof -
  let ?w1 = "snd (db_user_update_tokenVersion ''u1'' demo_world2)"
  have u: "user demo_world2 ''u1'' = Some demo_user" by (simp add: demo_defs)
  have w1: "refreshToken ?w1 = refreshToken demo_world2"
    "user ?w1 ''u1'' = Some (demo_user\<lparr>u_tokenVersion := 2\<rparr>)"
    by (simp_all add: user_update_Some [OF u] demo_user_def)
  have v1: "case jwt_verify (refreshTokenSecret demo_cfg) 2000 demo_tok1 of
              Inl e \<Rightarrow> False | Inr d \<Rightarrow> is_refresh d"
    and v2: "case jwt_verify (refreshTokenSecret demo_cfg) 2000 demo_tok2 of
              Inl e \<Rightarrow> False | Inr d \<Rightarrow> is_refresh d"
    by (simp_all add: demo_defs)
  have s2: "find (\<lambda>x. rt_token x = demo_tok2) (refreshToken demo_world2) = Some demo_row2"
    by (simp add: demo_defs)
  have s1: "find (\<lambda>x. rt_token x = demo_tok1) (refreshToken ?w1) = Some demo_row1_rotated"
    unfolding w1(1) by (simp add: demo_defs)
  have o2: "user demo_world2 (rt_userId demo_row2) = Some demo_user"
    and o1: "user ?w1 (rt_userId demo_row1_rotated) = Some (demo_user\<lparr>u_tokenVersion := 2\<rparr>)"
    using u w1(2) by (simp_all add: demo_row2_def demo_row1_rotated_def demo_row1_def)
  have e2: "\<not> 2000 > rt_expiresAt demo_row2" and e1: "\<not> 2000 > rt_expiresAt demo_row1_rotated"
    by (simp_all add: demo_defs)
  have f: "rt_id demo_row2 = ''r2''" "rt_userId demo_row2 = ''u1''"
    "rt_tokenVersion demo_row2 \<le> u_tokenVersion demo_user" "rt_isRevoked demo_row2 = False"
    "rt_id demo_row1_rotated = ''r1''"
    "rt_tokenVersion demo_row1_rotated < u_tokenVersion (demo_user\<lparr>u_tokenVersion := 2\<rparr>)"
    by (simp_all add: demo_defs)
  show ?thesis
    using f w1 s2
      epoch_behind_invalidates [OF v2 s2 o2 e2, of demo_pf ent3 "Some ''UA''" None "Some ''other''"]
      epoch_behind_invalidates [OF v1 s1 o1 e1, of demo_pf ent3 "Some ''UA''" None "Some ''other''"]
    by simp
qed

section \<open>Device mismatch (C5)\<close>

text \<open>
  Claim C5 as stated fails: the outcome depends on the other checks, which come first.
  The rotated token of the demo run, presented 19 seconds after its rotation from
  another device, is answered with the reuse error and a \<open>token_reuse\<close> alert, not with
  the device-mismatch error.
\<close>

theorem mismatch_after_reuse_counterexample:
  "find (\<lambda>x. rt_token x = demo_tok1) (refreshToken demo_world2) = Some demo_row1_rotated
   \<and> rt_deviceFingerprint demo_row1_rotated = Some ''hB:O:UA''
   \<and> fst (rotateRefreshToken demo_cfg demo_pf ent3 20000 demo_tok1 (Some ''UA2'')
            (Some ''10.0.0.9'') (Some ''hB:O:UA2'') demo_world2) = Inl TokenReuseDetected
   \<and> map al_alertType (securityAlert (snd (rotateRefreshToken demo_cfg demo_pf ent3 20000
            demo_tok1 (Some ''UA2'') (Some ''10.0.0.9'') (Some ''hB:O:UA2'') demo_world2)))
       = [token_reuse]"
  by (simp add: demo_defs op_defs)

text \<open>
  Claim C5, amended. For a presented token that passes the signature, lookup, expiry,
  epoch and reuse checks (its row is neither revoked nor rotated): if the stored
  fingerprint and the request fingerprint are both present and differ, the call fails
  with the device-mismatch error, every row of the family is revoked afterwards, and
  exactly one \<open>device_mismatch\<close> alert for the owner is added.
\<close>

theorem mismatch_revokes_family:
  assumes pres: "presentable cfg now tok w r u"
    and ep: "\<not> rt_tokenVersion r < u_tokenVersion u"
    and unused: "\<not> rt_isRevoked r" "\<not> tok_truthy (rt_replacedByToken r)"
    and fps: "truthy (rt_deviceFingerprint r)" "truthy fp" "rt_deviceFingerprint r \<noteq> fp"
  shows "fst (rotateRefreshToken cfg pf ent now tok deviceInfo ip fp w) = Inl DeviceMismatch
       \<and> refreshToken (snd (rotateRefreshToken cfg pf ent now tok deviceInfo ip fp w))
           = family_revoked (rt_familyId r) (refreshToken w)
       \<and> (\<forall>x \<in> set (refreshToken (snd (rotateRefreshToken cfg pf ent now tok deviceInfo ip fp w))).
            rt_familyId x = rt_familyId r \<longrightarrow> rt_isRevoked x)
       \<and> securityAlert (snd (rotateRefreshToken cfg pf ent now tok deviceInfo ip fp w))
           = securityAlert w @
             [\<lparr>al_userId = rt_userId r, al_alertType = device_mismatch,
               al_message = device_mismatch_message,
               al_metadata = alert_metadata (rt_familyId r) ip deviceInfo,
               al_isRead = False, al_isDismissed = False, al_createdAt = now\<rparr>]"
proof -
  have u: "user w (rt_userId r) = Some u" using pres by (simp add: presentable_def)
  note rot = rotate_mismatch [OF pres ep unused fps, of pf ent deviceInfo ip]
  note st = alert_after_family_revocation [OF u, of now device_mismatch device_mismatch_message
      "alert_metadata (rt_familyId r) ip deviceInfo" "rt_familyId r"]
  have c1: "fst (rotateRefreshToken cfg pf ent now tok deviceInfo ip fp w) = Inl DeviceMismatch"
    by (simp add: rot)
  have c2: "refreshToken (snd (rotateRefreshToken cfg pf ent now tok deviceInfo ip fp w))
           = family_revoked (rt_familyId r) (refreshToken w)"
    by (simp add: rot st(1))
  have c3: "\<forall>x \<in> set (refreshToken (snd (rotateRefreshToken cfg pf ent now tok deviceInfo ip fp w))).
            rt_familyId x = rt_familyId r \<longrightarrow> rt_isRevoked x"
    unfolding c2 using family_revoked_all by blast
  have c4: "securityAlert (snd (rotateRefreshToken cfg pf ent now tok deviceInfo ip fp w))
           = securityAlert w @
             [\<lparr>al_userId = rt_userId r, al_alertType = device_mismatch,
               al_message = device_mismatch_message,
               al_metadata = alert_metadata (rt_familyId r) ip deviceInfo,
               al_isRead = False, al_isDismissed = False, al_createdAt = now\<rparr>]"
    by (simp add: rot st(2))
  show ?thesis using c1 c2 c3 c4 by blast
qed

theorem mismatch_revokes_family_witness:
  "presentable demo_cfg 1000 demo_tok1 demo_world1 demo_row1 demo_user
   \<and> rt_deviceFingerprint demo_row1 = Some ''hB:O:UA''
   \<and> fst (rotateRefreshToken demo_cfg demo_pf ent2 1000 demo_tok1 (Some ''UA2'')
            (Some ''10.0.0.9'') (Some ''hB:O:UA2'') demo_world1) = Inl DeviceMismatch
   \<and> refreshToken (snd (rotateRefreshToken demo_cfg demo_pf ent2 1000 demo_tok1 (Some ''UA2'')
            (Some ''10.0.0.9'') (Some ''hB:O:UA2'') demo_world1))
       = [demo_row1\<lparr>rt_isRevoked := True\<rparr>]
   \<and> map al_alertType (securityAlert (snd (rotateRefreshToken demo_cfg demo_pf ent2 1000
            demo_tok1 (Some ''UA2'') (Some ''10.0.0.9'') (Some ''hB:O:UA2'') demo_world1)))
       = [device_mismatch]"
proof -
  have h1: "presentable demo_cfg 1000 demo_tok1 demo_world1 demo_row1 demo_user"
    by (rule demo_presentable1)
  have h2: "\<not> rt_tokenVersion demo_row1 < u_tokenVersion demo_user"
    by (simp add: demo_defs)
  have h3: "\<not> rt_isRevoked demo_row1" "\<not> tok_truthy (rt_replacedByToken demo_row1)"
    by (simp_all add: demo_defs)
  have fp: "rt_deviceFingerprint demo_row1 = Some ''hB:O:UA''" by (simp add: demo_defs)
  have h4: "truthy (rt_deviceFingerprint demo_row1)" "truthy (Some ''hB:O:UA2'')"
    "rt_deviceFingerprint demo_row1 \<noteq> Some ''hB:O:UA2''"
    by (simp_all add: fp truthy_def)
  have rows: "family_revoked (rt_familyId demo_row1) (refreshToken demo_world1)
      = [demo_row1\<lparr>rt_isRevoked := True\<rparr>]"
    by (simp add: family_revoked_def demo_defs)
  have al: "securityAlert demo_world1 = []" by (simp add: demo_defs)
  show ?thesis
    using h1 fp
      mismatch_revokes_family [OF h1 h2 h3 h4, of demo_pf ent2 "Some ''UA2''" "Some ''10.0.0.9''"]
    by (simp add: rows al)
qed

section \<open>The middleware replaces the rotation error (C6)\<close>

lemma demo_req_access_expired:
  "verifyAccessToken demo_cfg 400000
     (Jwt ''ka'' (AccessClaims ''u1'' ''ann@example.com'' ''Ann'') 0 300) demo_world2
   = Inl (InvalidOrExpiredAccessToken JwtExpired)"
  by (simp add: verifyAccessToken_def demo_defs)

lemma demo_req_rotation_fails:
  "fst (rotateRefreshToken demo_cfg demo_pf ent3 400000 demo_tok1 (Some ''UA'')
          (Some ''10.0.0.1'') (Some ''hB:O:UA'') demo_world2) = Inl TokenReuseDetected"
  by (simp add: demo_defs op_defs)

lemma authenticate_rotation_failed:
  assumes "h_authorization req = Some [Text ''Bearer'', token]"
    and "verifyAccessToken cfg now token w = Inl e0"
    and "h_x_refresh_token req = Some rtok" "tok_truthy (Some rtok)"
    and "fst (rotateRefreshToken cfg pf ent now rtok (h_user_agent req)
                (or_opt (h_x_forwarded_for req) (remoteAddress req))
                (Some (generateDeviceFingerprint pf (h_user_agent req))) w) = Inl e"
  shows "authenticateJWT cfg pf ent now req w
           = (Inl BothTokensInvalid,
              snd (rotateRefreshToken cfg pf ent now rtok (h_user_agent req)
                (or_opt (h_x_forwarded_for req) (remoteAddress req))
                (Some (generateDeviceFingerprint pf (h_user_agent req))) w))"
proof -
  let ?rot = "rotateRefreshToken cfg pf ent now rtok (h_user_agent req)
                (or_opt (h_x_forwarded_for req) (remoteAddress req))
                (Some (generateDeviceFingerprint pf (h_user_agent req))) w"
  obtain w1 where r: "?rot = (Inl e, w1)" using assms(5) by (cases ?rot) simp
  have "authenticateJWT cfg pf ent now req w = (Inl BothTokensInvalid, w1)"
    using assms(1-4) r by (simp add: authenticateJWT_def Let_def)
  then show ?thesis using r by simp
qed

lemma demo_req_fields:
  "h_authorization demo_req
     = Some [Text ''Bearer'', Jwt ''ka'' (AccessClaims ''u1'' ''ann@example.com'' ''Ann'') 0 300]"
  "h_x_refresh_token demo_req = Some demo_tok1"
  "tok_truthy (Some demo_tok1)"
  "h_user_agent demo_req = Some ''UA''"
  "or_opt (h_x_forwarded_for demo_req) (remoteAddress demo_req) = Some ''10.0.0.1''"
  "generateDeviceFingerprint demo_pf (Some ''UA'') = ''hB:O:UA''"
  by (simp_all add: demo_req_def demo_tok1_def or_opt_def truthy_def
        generateDeviceFingerprint_def demo_pf_def or_str_def)

text \<open>
  Claim C6 as stated fails. A request carries an expired access token and the rotated
  refresh token of the demo run; the rotation fails with the reuse error, and the
  middleware passes on a different, generic error: the one its
  \<^verbatim>\<open>catch (refreshTokenError)\<close> block constructs.
\<close>

theorem rotation_error_replaced_counterexample:
  "verifyAccessToken demo_cfg 400000
     (Jwt ''ka'' (AccessClaims ''u1'' ''ann@example.com'' ''Ann'') 0 300) demo_world2
     = Inl (InvalidOrExpiredAccessToken JwtExpired)
   \<and> h_x_refresh_token demo_req = Some demo_tok1
   \<and> fst (rotateRefreshToken demo_cfg demo_pf ent3 400000 demo_tok1 (Some ''UA'')
            (Some ''10.0.0.1'') (Some ''hB:O:UA'') demo_world2) = Inl TokenReuseDetected
   \<and> fst (authenticateJWT demo_cfg demo_pf ent3 400000 demo_req demo_world2)
       = Inl BothTokensInvalid"
proof -
  have f: "fst (rotateRefreshToken demo_cfg demo_pf ent3 400000 demo_tok1 (h_user_agent demo_req)
        (or_opt (h_x_forwarded_for demo_req) (remoteAddress demo_req))
        (Some (generateDeviceFingerprint demo_pf (h_user_agent demo_req))) demo_world2)
       = Inl TokenReuseDetected"
    using demo_req_rotation_fails by (simp add: demo_req_fields)
  show ?thesis
    using demo_req_access_expired demo_req_rotation_fails demo_req_fields(2)
      authenticate_rotation_failed [OF demo_req_fields(1) demo_req_access_expired
        demo_req_fields(2,3) f]
    by simp
qed

text \<open>
  Claim C6, amended. Whenever the access-token verification of \<^verbatim>\<open>authenticateJWT\<close>
  fails, a refresh token is supplied and its rotation fails, the request fails with the
  fixed error "Both access and refresh tokens are invalid. Please re-authenticate."
  (\<open>BothTokensInvalid\<close>), whichever error the rotation produced; the world is the one
  the failed rotation left, with its revocations and alerts.
\<close>

theorem rotation_error_replaced:
  assumes hdr: "h_authorization req = Some [Text ''Bearer'', token]"
    and acc: "verifyAccessToken cfg now token w = Inl e0"
    and rtok: "h_x_refresh_token req = Some rtok" "tok_truthy (Some rtok)"
    and rot: "rotateRefreshToken cfg pf ent now rtok (h_user_agent req)
                (or_opt (h_x_forwarded_for req) (remoteAddress req))
                (Some (generateDeviceFingerprint pf (h_user_agent req))) w = (Inl e, w1)"
  shows "authenticateJWT cfg pf ent now req w = (Inl BothTokensInvalid, w1)"
  using authenticate_rotation_failed [OF hdr acc rtok, of pf ent e] rot by simp

theorem rotation_error_replaced_witness:
  "h_authorization demo_req
     = Some [Text ''Bearer'', Jwt ''ka'' (AccessClaims ''u1'' ''ann@example.com'' ''Ann'') 0 300]
   \<and> verifyAccessToken demo_cfg 400000
        (Jwt ''ka'' (AccessClaims ''u1'' ''ann@example.com'' ''Ann'') 0 300) demo_world2
       = Inl (InvalidOrExpiredAccessToken JwtExpired)
   \<and> h_x_refresh_token demo_req = Some demo_tok1
   \<and> fst (rotateRefreshToken demo_cfg demo_pf ent3 400000 demo_tok1 (h_user_agent demo_req)
        (or_opt (h_x_forwarded_for demo_req) (remoteAddress demo_req))
        (Some (generateDeviceFingerprint demo_pf (h_user_agent demo_req))) demo_world2)
       = Inl TokenReuseDetected
   \<and> fst (authenticateJWT demo_cfg demo_pf ent3 400000 demo_req demo_world2)
       = Inl BothTokensInvalid
   \<and> map rt_isRevoked
        (refreshToken (snd (authenticateJWT demo_cfg demo_pf ent3 400000 demo_req demo_world2)))
       = [True, True]"
proof -
  let ?rot = "rotateRefreshToken demo_cfg demo_pf ent3 400000 demo_tok1 (h_user_agent demo_req)
        (or_opt (h_x_forwarded_for demo_req) (remoteAddress demo_req))
        (Some (generateDeviceFingerprint demo_pf (h_user_agent demo_req))) demo_world2"
  have f: "fst ?rot = Inl TokenReuseDetected"
    using demo_req_rotation_fails by (simp add: demo_req_fields)
  then obtain w1 where h4: "?rot = (Inl TokenReuseDetected, w1)" by (cases ?rot) simp
  have rows: "map rt_isRevoked (refreshToken (snd ?rot)) = [True, True]"
    by (simp add: demo_req_fields) (simp add: demo_defs op_defs)
  then have rows1: "map rt_isRevoked (refreshToken w1) = [True, True]" using h4 by simp
  show ?thesis
    using demo_req_fields(1) demo_req_access_expired demo_req_fields(2) f rows1
      rotation_error_replaced [OF demo_req_fields(1) demo_req_access_expired
        demo_req_fields(2,3) h4]
    by simp
qed

section \<open>Family and revoked flag of a stored row (C7)\<close>

lemma pk_same_row:
  assumes "distinct (map rt_id xs)" "r \<in> set xs" "r' \<in> set xs" "rt_id r' = rt_id r"
  shows "r' = r"
  using assms by (meson distinct_map inj_onD)

lemma grows_invariant:
  assumes "grows xs ys" "distinct (map rt_id xs)"
  shows "distinct (map rt_id ys)
       \<and> (\<forall>r \<in> set xs. \<exists>r' \<in> set ys. rt_id r' = rt_id r
             \<and> rt_familyId r' = rt_familyId r \<and> (rt_isRevoked r \<longrightarrow> rt_isRevoked r'))"
  using assms
proof (induction rule: grows.induct)
  case (same xs)
  then show ?case by blast
next
  case (upd xs ys g)
  then have d: "distinct (map rt_id ys)" by blast
  have "rt_id \<circ> g = rt_id"
    using upd.hyps(2) by (auto simp: gentle_def)
  then have ids: "map rt_id (map g ys) = map rt_id ys" by simp
  have "\<forall>r \<in> set xs. \<exists>r' \<in> set (map g ys). rt_id r' = rt_id r
             \<and> rt_familyId r' = rt_familyId r \<and> (rt_isRevoked r \<longrightarrow> rt_isRevoked r')"
  proof
    fix r assume "r \<in> set xs"
    then obtain y where y: "y \<in> set ys" "rt_id y = rt_id r" "rt_familyId y = rt_familyId r"
      "rt_isRevoked r \<longrightarrow> rt_isRevoked y"
      using upd by blast
    have "g y \<in> set (map g ys)" using y(1) by simp
    moreover have "rt_id (g y) = rt_id r \<and> rt_familyId (g y) = rt_familyId r
        \<and> (rt_isRevoked r \<longrightarrow> rt_isRevoked (g y))"
      using y upd.hyps(2) by (simp add: gentle_def)
    ultimately show "\<exists>r' \<in> set (map g ys). rt_id r' = rt_id r
             \<and> rt_familyId r' = rt_familyId r \<and> (rt_isRevoked r \<longrightarrow> rt_isRevoked r')"
      by blast
  qed
  moreover have "distinct (map rt_id (map g ys))" unfolding ids by (rule d)
  ultimately show ?case by blast
next
  case (add xs ys n)
  then have d: "distinct (map rt_id ys)" by blast
  have "\<forall>r \<in> set xs. \<exists>r' \<in> set (ys @ [n]). rt_id r' = rt_id r
             \<and> rt_familyId r' = rt_familyId r \<and> (rt_isRevoked r \<longrightarrow> rt_isRevoked r')"
    using add by fastforce
  then show ?case using d add.hyps(2) by simp
qed

lemma grows_preserved:
  assumes "grows (refreshToken w) (refreshToken w')" "pk_unique w"
  shows "rows_preserved w w'"
  unfolding rows_preserved_def
proof (intro ballI impI)
  fix r r' assume r: "r \<in> set (refreshToken w)" and r': "r' \<in> set (refreshToken w')"
    and eq: "rt_id r' = rt_id r"
  have inv: "distinct (map rt_id (refreshToken w'))"
    "\<forall>r \<in> set (refreshToken w). \<exists>r' \<in> set (refreshToken w'). rt_id r' = rt_id r
             \<and> rt_familyId r' = rt_familyId r \<and> (rt_isRevoked r \<longrightarrow> rt_isRevoked r')"
    using grows_invariant [OF assms(1)] assms(2) by (simp_all add: pk_unique_def)
  obtain y where y: "y \<in> set (refreshToken w')" "rt_id y = rt_id r"
    "rt_familyId y = rt_familyId r" "rt_isRevoked r \<longrightarrow> rt_isRevoked y"
    using inv(2) r by blast
  have "r' = y" using pk_same_row [OF inv(1) y(1) r'] eq y(2) by simp
  then show "rt_familyId r' = rt_familyId r \<and> (rt_isRevoked r \<longrightarrow> rt_isRevoked r')"
    using y by simp
qed

lemma grows_trans: "grows ys zs \<Longrightarrow> grows xs ys \<Longrightarrow> grows xs zs"
  by (induction rule: grows.induct) (auto intro: grows.intros)

lemma filter_preserved:
  assumes "pk_unique w" "refreshToken w' = filter q (refreshToken w)"
  shows "rows_preserved w w'"
  unfolding rows_preserved_def
proof (intro ballI impI)
  fix r r' assume r: "r \<in> set (refreshToken w)" and r': "r' \<in> set (refreshToken w')"
    and eq: "rt_id r' = rt_id r"
  have "r' \<in> set (refreshToken w)" using r' assms(2) by simp
  then have "r' = r" using pk_same_row [of "refreshToken w" r r'] assms(1) r eq
    by (simp add: pk_unique_def)
  then show "rt_familyId r' = rt_familyId r \<and> (rt_isRevoked r \<longrightarrow> rt_isRevoked r')" by simp
qed

lemma gentle_if: "gentle f \<Longrightarrow> gentle (\<lambda>r. if p r then f r else r)"
  by (simp add: gentle_def)

lemma gentle_revoke: "gentle (\<lambda>r. r\<lparr>rt_isRevoked := True\<rparr>)"
  by (simp add: gentle_def)

lemma gentle_rotated:
  "gentle (\<lambda>r. r\<lparr>rt_replacedByToken := t, rt_rotatedAt := a, rt_lastUsedAt := b\<rparr>)"
  by (simp add: gentle_def)

lemma gentle_used: "gentle (\<lambda>r. r\<lparr>rt_lastUsedAt := b\<rparr>)"
  by (simp add: gentle_def)

lemma updateMany_grows:
  "gentle f \<Longrightarrow> grows xs (refreshToken w) \<Longrightarrow>
   grows xs (refreshToken (db_refreshToken_updateMany p f w))"
  by (simp add: db_refreshToken_updateMany_def grows.upd gentle_if)

lemma update_grows:
  "gentle f \<Longrightarrow> grows xs (refreshToken w) \<Longrightarrow>
   grows xs (refreshToken (db_refreshToken_update i f w))"
  by (simp add: db_refreshToken_update_def updateMany_grows)

lemma revokeTokenFamily_grows:
  "grows xs (refreshToken w) \<Longrightarrow> grows xs (refreshToken (revokeTokenFamily f w))"
  by (simp add: revokeTokenFamily_def updateMany_grows gentle_revoke)

lemma revokeAllUserTokens_grows:
  "grows xs (refreshToken w) \<Longrightarrow> grows xs (refreshToken (revokeAllUserTokens u w))"
  by (simp add: revokeAllUserTokens_def updateMany_grows gentle_revoke)

lemma revokeRefreshToken_grows:
  "grows xs (refreshToken w) \<Longrightarrow> grows xs (refreshToken (revokeRefreshToken t w))"
  by (simp add: revokeRefreshToken_def updateMany_grows gentle_revoke)

lemma alert_rows:
  "refreshToken (createSecurityAlert_forget now uid ty msg md w) = refreshToken w"
  by (simp add: createSecurityAlert_forget_def createSecurityAlert_def)

lemma create_grows:
  "db_refreshToken_create r w = Inr w' \<Longrightarrow> grows xs (refreshToken w) \<Longrightarrow>
   grows xs (refreshToken w')"
  by (auto simp: db_refreshToken_create_def split: if_splits intro: grows.add)

lemma generateRefreshToken_grows:
  assumes "grows xs (refreshToken w)"
  shows "grows xs (refreshToken (snd (generateRefreshToken cfg pf ent now uid di ip fam fp w)))"
  using assms
  by (auto simp: generateRefreshToken_def Let_def split: sum.splits intro: create_grows)

lemma generateTokenPair_grows:
  "grows (refreshToken w)
     (refreshToken (snd (generateTokenPair cfg pf ent now uid email name di ip fp w)))"
proof -
  have "snd (generateTokenPair cfg pf ent now uid email name di ip fp w)
        = snd (generateRefreshToken cfg pf ent now uid di ip None fp w)"
    by (simp add: generateTokenPair_def Let_def split: prod.splits sum.splits)
  then show ?thesis by (simp add: generateRefreshToken_grows grows.same)
qed

lemma rotate_world_cases:
  "snd (rotateRefreshToken cfg pf ent now tok di ip fp w) = w
   \<or> (\<exists>i. snd (rotateRefreshToken cfg pf ent now tok di ip fp w)
          = db_refreshToken_update i (\<lambda>r. r\<lparr>rt_isRevoked := True\<rparr>) w)
   \<or> (\<exists>uid ty msg md f. snd (rotateRefreshToken cfg pf ent now tok di ip fp w)
          = createSecurityAlert_forget now uid ty msg md (revokeTokenFamily f w))
   \<or> (\<exists>uid fam fp'. snd (rotateRefreshToken cfg pf ent now tok di ip fp w)
          = snd (generateRefreshToken cfg pf ent now uid di ip fam fp' w))
   \<or> (\<exists>i t uid fam fp'. snd (rotateRefreshToken cfg pf ent now tok di ip fp w)
          = db_refreshToken_update i
              (\<lambda>r. r\<lparr>rt_replacedByToken := Some t, rt_rotatedAt := Some now,
                     rt_lastUsedAt := Some now\<rparr>)
              (snd (generateRefreshToken cfg pf ent now uid di ip fam fp' w)))"
proof (cases "jwt_verify (refreshTokenSecret cfg) now tok")
  case (Inl e)
  then show ?thesis by (simp add: rotateRefreshToken_def)
next
  case (Inr decoded)
  show ?thesis
  proof (cases "is_refresh decoded")
    case False
    then show ?thesis using Inr by (simp add: rotateRefreshToken_def)
  next
    case True
    show ?thesis
    proof (cases "db_refreshToken_findFirst_user (\<lambda>r. rt_token r = tok) w")
      case None
      then show ?thesis using Inr True by (simp add: rotateRefreshToken_def)
    next
      case (Some su)
      obtain st u where su: "su = (st, u)" by (cases su)
      note base = Inr True Some su
      consider (expired) "now > rt_expiresAt st"
        | (epoch) "\<not> now > rt_expiresAt st" "rt_tokenVersion st < u_tokenVersion u"
        | (grace) "\<not> now > rt_expiresAt st" "\<not> rt_tokenVersion st < u_tokenVersion u"
            "rt_isRevoked st \<or> tok_truthy (rt_replacedByToken st)"
            "graceReplacement now st w \<noteq> None"
        | (reuse) "\<not> now > rt_expiresAt st" "\<not> rt_tokenVersion st < u_tokenVersion u"
            "rt_isRevoked st \<or> tok_truthy (rt_replacedByToken st)"
            "graceReplacement now st w = None"
        | (mismatch) "\<not> now > rt_expiresAt st" "\<not> rt_tokenVersion st < u_tokenVersion u"
            "\<not> (rt_isRevoked st \<or> tok_truthy (rt_replacedByToken st))"
            "truthy (rt_deviceFingerprint st) \<and> truthy fp \<and> rt_deviceFingerprint st \<noteq> fp"
        | (proceed) "\<not> now > rt_expiresAt st" "\<not> rt_tokenVersion st < u_tokenVersion u"
            "\<not> (rt_isRevoked st \<or> tok_truthy (rt_replacedByToken st))"
            "\<not> (truthy (rt_deviceFingerprint st) \<and> truthy fp \<and> rt_deviceFingerprint st \<noteq> fp)"
        by blast
      then show ?thesis
      proof cases
        case expired
        then show ?thesis using base by (simp add: rotateRefreshToken_def)
      next
        case epoch
        then have "snd (rotateRefreshToken cfg pf ent now tok di ip fp w)
          = db_refreshToken_update (rt_id st) (\<lambda>r. r\<lparr>rt_isRevoked := True\<rparr>) w"
          using base by (simp add: rotateRefreshToken_def)
        then show ?thesis by blast
      next
        case grace
        then obtain rr ru where "graceReplacement now st w = Some (rr, ru)" by auto
        then show ?thesis using base grace(1,2,3) by (simp add: rotateRefreshToken_def)
      next
        case reuse
        then have "snd (rotateRefreshToken cfg pf ent now tok di ip fp w)
          = createSecurityAlert_forget now (rt_userId st) token_reuse token_reuse_message
              (alert_metadata (rt_familyId st) ip di) (revokeTokenFamily (rt_familyId st) w)"
          using base by (simp add: rotateRefreshToken_def)
        then show ?thesis by blast
      next
        case mismatch
        then have "snd (rotateRefreshToken cfg pf ent now tok di ip fp w)
          = createSecurityAlert_forget now (rt_userId st) device_mismatch device_mismatch_message
              (alert_metadata (rt_familyId st) ip di) (revokeTokenFamily (rt_familyId st) w)"
          using base by (simp add: rotateRefreshToken_def)
        then show ?thesis by blast
      next
        case proceed
        let ?g = "generateRefreshToken cfg pf ent now (rt_userId st) di ip
                    (Some (rt_familyId st)) (or_opt (rt_deviceFingerprint st) fp) w"
        have m: "(truthy (rt_deviceFingerprint st) \<and> truthy fp \<and> rt_deviceFingerprint st \<noteq> fp)
                   = False"
          using proceed(4) by blast
        have r: "rotateRefreshToken cfg pf ent now tok di ip fp w =
           (case ?g of
              (Inl e, w') \<Rightarrow> (Inl e, w')
            | (Inr newRefreshToken, w') \<Rightarrow>
                (Inr \<lparr>accessToken = generateAccessToken cfg now (rt_userId st) (u_email u)
                         (or_str (u_name u) []),
                      refreshToken_of = newRefreshToken\<rparr>,
                 db_refreshToken_update (rt_id st)
                   (\<lambda>x. x\<lparr>rt_replacedByToken := Some newRefreshToken,
                          rt_rotatedAt := Some now, rt_lastUsedAt := Some now\<rparr>) w'))"
          using base proceed(1,2,3) by (simp add: rotateRefreshToken_def m)
        obtain res w' where g: "?g = (res, w')" by (cases ?g)
        show ?thesis
        proof (cases res)
          case (Inl e)
          then have "snd (rotateRefreshToken cfg pf ent now tok di ip fp w) = snd ?g"
            using r g by simp
          then show ?thesis by blast
        next
          case (Inr t)
          then have "snd (rotateRefreshToken cfg pf ent now tok di ip fp w)
            = db_refreshToken_update (rt_id st)
                (\<lambda>x. x\<lparr>rt_replacedByToken := Some t,
                       rt_rotatedAt := Some now, rt_lastUsedAt := Some now\<rparr>) (snd ?g)"
            using r g by simp
          then show ?thesis by blast
        qed
      qed
    qed
  qed
qed

lemma rotate_grows:
  "grows (refreshToken w) (refreshToken (snd (rotateRefreshToken cfg pf ent now tok di ip fp w)))"
  using rotate_world_cases [of cfg pf ent now tok di ip fp w]
  by (elim disjE exE)
    (simp_all add: alert_rows grows.same update_grows revokeTokenFamily_grows
       generateRefreshToken_grows gentle_revoke gentle_rotated)

lemma rotate_grows_result:
  "rotateRefreshToken cfg pf ent now tok di ip fp w = (res, w') \<Longrightarrow>
   grows (refreshToken w) (refreshToken w')"
  using rotate_grows [of w cfg pf ent now tok di ip fp] by simp

lemma verifyRefreshToken_grows:
  "grows (refreshToken w) (refreshToken (snd (verifyRefreshToken cfg now tok w)))"
  by (simp add: verifyRefreshToken_def grows.same update_grows gentle_used
        split: sum.splits option.splits prod.splits)

lemma user_update_rows:
  "refreshToken (snd (db_user_update_tokenVersion uid w)) = refreshToken w"
  by (simp add: db_user_update_tokenVersion_def split: option.splits)

lemma incrementUserTokenVersion_grows:
  "grows (refreshToken w) (refreshToken (snd (incrementUserTokenVersion uid w)))"
proof (cases "user w uid")
  case None
  then show ?thesis
    by (simp add: incrementUserTokenVersion_def db_user_update_tokenVersion_def grows.same)
next
  case (Some u)
  have "grows (refreshToken w) (refreshToken (revokeAllUserTokens uid
          (w\<lparr>user := (user w)(uid \<mapsto> u\<lparr>u_tokenVersion := u_tokenVersion u + 1\<rparr>)\<rparr>)))"
    by (rule revokeAllUserTokens_grows) (simp add: grows.same)
  then show ?thesis by (simp add: increment_Some [OF Some])
qed

lemma revokeDevice_grows:
  "grows (refreshToken w) (refreshToken (revokeDevice uid i w))"
  by (simp add: revokeDevice_def grows.same revokeTokenFamily_grows split: option.splits)

lemma recordLoginEvent_rows:
  "recordLoginEvent pf now uid ip ua ev w = Inr w' \<Longrightarrow> refreshToken w' = refreshToken w"
  by (auto simp: recordLoginEvent_def Let_def split: if_splits)

lemma createSecurityAlert_rows:
  "createSecurityAlert now uid ty msg md w = Inr w' \<Longrightarrow> refreshToken w' = refreshToken w"
  by (auto simp: createSecurityAlert_def split: if_splits)

lemma processAuthEvent_rows:
  "refreshToken (snd (processAuthEvent pf now uid ip ua ev w)) = refreshToken w"
proof (cases "trustedDevice_findUnique uid (generateDeviceFingerprint pf ua) w")
  case (Some trusted)
  let ?w1 = "w\<lparr>trustedDevice :=
                map (\<lambda>d. if td_id d = td_id trusted
                          then d\<lparr>td_lastUsedAt := now, td_lastIpAddress := Some (normalizeIp ip)\<rparr>
                          else d) (trustedDevice w)\<rparr>"
  have w1: "refreshToken ?w1 = refreshToken w" by simp
  show ?thesis
  proof (cases "recordLoginEvent pf now uid (normalizeIp ip) ua ev ?w1")
    case (Inl e)
    then show ?thesis using Some by (auto simp: processAuthEvent_def Let_def)
  next
    case (Inr w2)
    then have "refreshToken w2 = refreshToken w"
      using recordLoginEvent_rows [OF Inr] w1 by simp
    then show ?thesis using Some Inr by (auto simp: processAuthEvent_def Let_def)
  qed
next
  case None
  let ?fp = "generateDeviceFingerprint pf ua"
  let ?nd = "find (\<lambda>h. lh_userId h = uid \<and> lh_deviceFingerprint h = Some ?fp) (loginHistory w) = None"
  let ?ni = "find (\<lambda>h. lh_userId h = uid \<and> lh_ipAddress h = normalizeIp ip) (loginHistory w) = None"
  let ?ev = "if ?nd then ev_new_device else if ?ni then ev_new_ip else ev"
  show ?thesis
  proof (cases "recordLoginEvent pf now uid (normalizeIp ip) ua ?ev w")
    case (Inl e)
    then show ?thesis using None by (simp add: processAuthEvent_def Let_def)
  next
    case (Inr w1)
    have r1: "refreshToken w1 = refreshToken w" by (rule recordLoginEvent_rows [OF Inr])
    let ?a1 = "if ?nd
               then createSecurityAlert now uid new_device
                      (''New device detected: '' @ pd_deviceName (parseUserAgent pf ua))
                      (new_device_metadata (normalizeIp ip) (parseUserAgent pf ua) ?fp) w1
               else Inr w1"
    show ?thesis
    proof (cases ?a1)
      case (Inl e)
      then show ?thesis using None Inr r1 by (simp add: processAuthEvent_def Let_def)
    next
      case a1: (Inr w2)
      have r2: "refreshToken w2 = refreshToken w"
        using a1 r1 createSecurityAlert_rows by (auto split: if_splits)
      let ?a2 = "if ?ni \<and> \<not> ?nd
                 then createSecurityAlert now uid new_location
                        (''Login from a new IP address: '' @ normalizeIp ip)
                        (new_location_metadata (normalizeIp ip) (parseUserAgent pf ua)) w2
                 else Inr w2"
      show ?thesis
      proof (cases ?a2)
        case (Inl e)
        then show ?thesis using None Inr a1 r2 by (simp add: processAuthEvent_def Let_def)
      next
        case a2: (Inr w3)
        have r3: "refreshToken w3 = refreshToken w"
          using a2 r2 createSecurityAlert_rows by (auto split: if_splits)
        then show ?thesis using None Inr a1 a2 by (simp add: processAuthEvent_def Let_def)
      qed
    qed
  qed
qed

lemma authenticate_grows:
  "grows (refreshToken w) (refreshToken (snd (authenticateJWT cfg pf ent now req w)))"
proof (cases "h_authorization req")
  case None
  then show ?thesis by (simp add: authenticateJWT_def grows.same)
next
  case (Some parts)
  show ?thesis
  proof (cases "\<exists>token. parts = [Text ''Bearer'', token]")
    case False
    then show ?thesis using Some
      by (auto simp: authenticateJWT_def grows.same split: list.splits)
  next
    case True
    then obtain token where parts: "parts = [Text ''Bearer'', token]" by blast
    show ?thesis
    proof (cases "verifyAccessToken cfg now token w")
      case (Inr payload)
      then show ?thesis using Some parts by (simp add: authenticateJWT_def grows.same)
    next
      case (Inl e)
      show ?thesis
      proof (cases "\<exists>rtok. h_x_refresh_token req = Some rtok \<and> tok_truthy (Some rtok)")
        case False
        then show ?thesis using Some parts Inl
          by (auto simp: authenticateJWT_def grows.same split: option.splits)
      next
        case True
        then obtain rtok where rtok: "h_x_refresh_token req = Some rtok" "tok_truthy (Some rtok)"
          by blast
        let ?rot = "rotateRefreshToken cfg pf ent now rtok (h_user_agent req)
                      (or_opt (h_x_forwarded_for req) (remoteAddress req))
                      (Some (generateDeviceFingerprint pf (h_user_agent req))) w"
        obtain res w1 where rot: "?rot = (res, w1)" by (cases ?rot)
        have g1: "grows (refreshToken w) (refreshToken w1)"
          by (rule rotate_grows_result [OF rot])
        show ?thesis using Some parts Inl rtok rot g1
          by (simp add: authenticateJWT_def Let_def processAuthEvent_rows
                split: sum.splits)
      qed
    qed
  qed
qed

lemma grows_pk_unique:
  "grows (refreshToken w) (refreshToken w') \<Longrightarrow> pk_unique w \<Longrightarrow> pk_unique w'"
  using grows_invariant [of "refreshToken w" "refreshToken w'"] by (simp add: pk_unique_def)

lemma exec_grows_or_filters:
  "grows (refreshToken w) (refreshToken (exec cfg pf op w))
   \<or> (\<exists>q. refreshToken (exec cfg pf op w) = filter q (refreshToken w))"
proof (cases op)
  case (OpCleanupExpiredTokens now)
  then have "refreshToken (exec cfg pf op w)
      = filter (\<lambda>r. \<not> rt_expiresAt r < now) (refreshToken w)"
    by (simp add: cleanupExpiredTokens_def)
  then show ?thesis by blast
qed (simp_all add: generateTokenPair_grows rotate_grows grows.same verifyRefreshToken_grows
      revokeRefreshToken_grows revokeTokenFamily_grows revokeAllUserTokens_grows
      incrementUserTokenVersion_grows user_update_rows revokeDevice_grows
      blacklistAccessToken_def authenticate_grows processAuthEvent_rows)

text \<open>
  Claim C7. Every operation of the engine (issuance, rotation, verification of either
  token, revocation of one token, of a family, of a device or of all tokens of a
  principal, the epoch bump and its first write alone, the cleanup, the deny-list, the
  middleware and the event tracking), run on a table with unique primary keys, leaves every stored row with the
  family id it had, never clears a revoked flag, and keeps the primary keys unique.
\<close>

theorem operations_preserve_rows:
  assumes "pk_unique w"
  shows "rows_preserved w (exec cfg pf op w) \<and> pk_unique (exec cfg pf op w)"
  using exec_grows_or_filters [of w cfg pf op]
proof (elim disjE exE)
  assume g: "grows (refreshToken w) (refreshToken (exec cfg pf op w))"
  show ?thesis using grows_preserved [OF g assms] grows_pk_unique [OF g assms] by simp
next
  fix q assume f: "refreshToken (exec cfg pf op w) = filter q (refreshToken w)"
  have "pk_unique (exec cfg pf op w)"
    using assms by (simp add: pk_unique_def f distinct_map_filter)
  then show ?thesis using filter_preserved [OF assms f] by simp
qed

theorem operations_preserve_rows_witness:
  "pk_unique demo_world2
   \<and> refreshToken demo_world2 = [demo_row1_rotated, demo_row2]
   \<and> refreshToken (exec demo_cfg demo_pf
        (OpRotateRefreshToken ent3 20000 demo_tok1 (Some ''UA'') (Some ''10.0.0.1'')
           (Some ''hB:O:UA'')) demo_world2)
       = [demo_row1_rotated\<lparr>rt_isRevoked := True\<rparr>, demo_row2\<lparr>rt_isRevoked := True\<rparr>]
   \<and> rows_preserved demo_world2 (exec demo_cfg demo_pf
        (OpRotateRefreshToken ent3 20000 demo_tok1 (Some ''UA'') (Some ''10.0.0.1'')
           (Some ''hB:O:UA'')) demo_world2)
   \<and> rows_preserved demo_world2 (exec demo_cfg demo_pf (OpCleanupExpiredTokens 1296000500)
        demo_world2)
   \<and> refreshToken (exec demo_cfg demo_pf (OpCleanupExpiredTokens 1296000500) demo_world2)
       = [demo_row2]"
proof -
  have h: "pk_unique demo_world2" by (simp add: pk_unique_def demo_defs)
  have r: "refreshToken demo_world2 = [demo_row1_rotated, demo_row2]" by (simp add: demo_defs)
  have e1: "refreshToken (exec demo_cfg demo_pf
        (OpRotateRefreshToken ent3 20000 demo_tok1 (Some ''UA'') (Some ''10.0.0.1'')
           (Some ''hB:O:UA'')) demo_world2)
       = [demo_row1_rotated\<lparr>rt_isRevoked := True\<rparr>, demo_row2\<lparr>rt_isRevoked := True\<rparr>]"
    by (simp add: demo_defs op_defs)
  have e2: "refreshToken (exec demo_cfg demo_pf (OpCleanupExpiredTokens 1296000500) demo_world2)
       = [demo_row2]"
    by (simp add: cleanupExpiredTokens_def demo_defs)
  show ?thesis
    using h r e1 e2
      operations_preserve_rows [OF h, of demo_cfg demo_pf
        "OpRotateRefreshToken ent3 20000 demo_tok1 (Some ''UA'') (Some ''10.0.0.1'')
           (Some ''hB:O:UA'')"]
      operations_preserve_rows [OF h, of demo_cfg demo_pf "OpCleanupExpiredTokens 1296000500"]
    by simp
qed

section \<open>The access-token deny-list (C8)\<close>

lemma verify_blacklisted:
  "token \<in> blacklistedTokens w \<Longrightarrow> verifyAccessToken cfg t token w = Inl TokenRevoked"
  by (simp add: verifyAccessToken_def)

lemma blacklist_present:
  assumes "token \<notin> snd ` set (timers w)" "t < now + 300000"
  shows "token \<in> blacklistedTokens (runTimers t (blacklistAccessToken now token w))"
  using assms by (auto simp: runTimers_def blacklistAccessToken_def)

lemma blacklist_gone:
  assumes "now + 300000 \<le> t"
  shows "token \<notin> blacklistedTokens (runTimers t (blacklistAccessToken now token w))"
  using assms by (force simp: runTimers_def blacklistAccessToken_def)

lemma minted_access_expired:
  assumes "t0 \<le> now" "accessTokenExpiry cfg \<le> 300" "now + 300000 \<le> t"
  shows "jwt_verify (accessTokenSecret cfg) t (generateAccessToken cfg t0 uid email name)
           = Inl JwtExpired"
proof -
  have "t0 div 1000 + accessTokenExpiry cfg \<le> now div 1000 + 300"
    using assms(1,2) by (simp add: add_mono div_le_mono)
  also have "\<dots> = (now + 300000) div 1000" by simp
  also have "\<dots> \<le> t div 1000" using assms(3) by (rule div_le_mono)
  finally show ?thesis by (simp add: generateAccessToken_def jwt_sign_def)
qed

text \<open>
  Claim C8 as stated fails: the entry does not live for the remaining lifetime of the
  token. An access token minted at time 0 with the default expiry of 300 seconds and
  blacklisted at 240000 ms has 60000 ms left; the only callback scheduled is due 300000
  ms after the blacklisting, and the entry is still in the set once the remaining
  lifetime has passed.
\<close>

theorem blacklist_ttl_counterexample:
  "tok_expiry_ms (generateAccessToken demo_cfg 0 ''u1'' ''ann@example.com'' ''Ann'') - 240000
     = 60000
   \<and> timers (blacklistAccessToken 240000
        (generateAccessToken demo_cfg 0 ''u1'' ''ann@example.com'' ''Ann'') empty_world)
       = [(240000 + 300000, generateAccessToken demo_cfg 0 ''u1'' ''ann@example.com'' ''Ann'')]
   \<and> generateAccessToken demo_cfg 0 ''u1'' ''ann@example.com'' ''Ann''
       \<in> blacklistedTokens (runTimers (240000 + 60000 + 1)
            (blacklistAccessToken 240000
               (generateAccessToken demo_cfg 0 ''u1'' ''ann@example.com'' ''Ann'') empty_world))"
  by (simp add: generateAccessToken_def jwt_sign_def demo_cfg_def blacklistAccessToken_def
        runTimers_def empty_world_def)

text \<open>
  Claim C8, amended. \<^verbatim>\<open>blacklistAccessToken\<close> puts the token on the deny-list for a
  fixed 5 minutes (300000 ms) from the moment of blacklisting, whatever lifetime the
  token has left: for a token with no removal already pending, at every time before
  \<open>now + 300000\<close> \<^verbatim>\<open>verifyAccessToken\<close> fails with the revoked-token error, and from
  \<open>now + 300000\<close> on the entry is gone. Five minutes is the default lifetime of an
  access token: a token minted with an expiry of at most 300 seconds has expired by the
  time its entry is removed, so it is never accepted again.
\<close>

theorem blacklist_five_minutes:
  assumes "token \<notin> snd ` set (timers w)"
  shows "(t < now + 300000 \<longrightarrow>
            verifyAccessToken cfg t token (runTimers t (blacklistAccessToken now token w))
              = Inl TokenRevoked)
       \<and> (now + 300000 \<le> t \<longrightarrow>
            token \<notin> blacklistedTokens (runTimers t (blacklistAccessToken now token w)))
       \<and> (token = generateAccessToken cfg t0 uid email name \<and> t0 \<le> now
            \<and> accessTokenExpiry cfg \<le> 300 \<and> now + 300000 \<le> t \<longrightarrow>
            verifyAccessToken cfg t token (runTimers t (blacklistAccessToken now token w))
              = Inl (InvalidOrExpiredAccessToken JwtExpired))"
proof -
  have "verifyAccessToken cfg t token (runTimers t (blacklistAccessToken now token w))
          = Inl (InvalidOrExpiredAccessToken JwtExpired)"
    if "token = generateAccessToken cfg t0 uid email name" "t0 \<le> now"
      "accessTokenExpiry cfg \<le> 300" "now + 300000 \<le> t"
    using blacklist_gone [OF that(4), of token w] minted_access_expired [OF that(2,3,4)] that(1)
    by (simp add: verifyAccessToken_def)
  then show ?thesis
    using assms by (simp add: verify_blacklisted blacklist_present blacklist_gone)
qed

theorem blacklist_five_minutes_witness:
  "Jwt ''ka'' (AccessClaims ''u1'' ''ann@example.com'' ''Ann'') 0 300 \<notin> snd ` set (timers empty_world)
   \<and> generateAccessToken demo_cfg 0 ''u1'' ''ann@example.com'' ''Ann''
       = Jwt ''ka'' (AccessClaims ''u1'' ''ann@example.com'' ''Ann'') 0 300
   \<and> verifyAccessToken demo_cfg 339999 (Jwt ''ka'' (AccessClaims ''u1'' ''ann@example.com'' ''Ann'') 0 300)
        (runTimers 339999 (blacklistAccessToken 40000
           (Jwt ''ka'' (AccessClaims ''u1'' ''ann@example.com'' ''Ann'') 0 300) empty_world))
       = Inl TokenRevoked
   \<and> Jwt ''ka'' (AccessClaims ''u1'' ''ann@example.com'' ''Ann'') 0 300 \<notin> blacklistedTokens
        (runTimers 340000 (blacklistAccessToken 40000
           (Jwt ''ka'' (AccessClaims ''u1'' ''ann@example.com'' ''Ann'') 0 300) empty_world))
   \<and> verifyAccessToken demo_cfg 340000 (Jwt ''ka'' (AccessClaims ''u1'' ''ann@example.com'' ''Ann'') 0 300)
        (runTimers 340000 (blacklistAccessToken 40000
           (Jwt ''ka'' (AccessClaims ''u1'' ''ann@example.com'' ''Ann'') 0 300) empty_world))
       = Inl (InvalidOrExpiredAccessToken JwtExpired)"
proof -
  let ?tok = "Jwt ''ka'' (AccessClaims ''u1'' ''ann@example.com'' ''Ann'') 0 300"
  have h: "?tok \<notin> snd ` set (timers empty_world)"
    by (simp add: empty_world_def)
  have g: "generateAccessToken demo_cfg 0 ''u1'' ''ann@example.com'' ''Ann'' = ?tok"
    by (simp add: generateAccessToken_def jwt_sign_def demo_cfg_def)
  have e: "accessTokenExpiry demo_cfg \<le> 300" by (simp add: demo_cfg_def)
  show ?thesis
    using h g e
      blacklist_five_minutes [OF h, of 339999 40000 demo_cfg 0 "''u1''" "''ann@example.com''" "''Ann''"]
      blacklist_five_minutes [OF h, of 340000 40000 demo_cfg 0 "''u1''" "''ann@example.com''" "''Ann''"]
    by simp
qed

section \<open>Alerts of an event on an untrusted device (C9)\<close>







section \<open>An absent request fingerprint (C10)\<close>

text \<open>
  Claim C10. For a stored token that passes the checks up to and including the epoch and
  reuse checks, a call without a request fingerprint (undefined or the empty string)
  skips the fingerprint comparison whatever fingerprint the row carries: with fresh
  random bytes the call succeeds as a rotation, the new row inherits the stored
  fingerprint, and no alert is raised.
\<close>

theorem absent_fingerprint_skips_check:
  assumes pres: "presentable cfg now tok w r u"
    and ep: "\<not> rt_tokenVersion r < u_tokenVersion u"
    and unused: "\<not> rt_isRevoked r" "\<not> tok_truthy (rt_replacedByToken r)"
    and absent: "\<not> truthy fp"
    and fr: "fresh ent w"
    and new: "new = minted_row cfg pf ent now (rt_userId r) deviceInfo ip (Some (rt_familyId r))
                      (or_opt (rt_deviceFingerprint r) fp) u"
  shows "fst (rotateRefreshToken cfg pf ent now tok deviceInfo ip fp w)
             = Inr \<lparr>accessToken = generateAccessToken cfg now (rt_userId r) (u_email u)
                      (or_str (u_name u) []),
                    refreshToken_of = rt_token new\<rparr>
         \<and> find (\<lambda>x. rt_token x = rt_token new)
              (refreshToken (snd (rotateRefreshToken cfg pf ent now tok deviceInfo ip fp w)))
             = Some new
         \<and> find (\<lambda>x. rt_token x = tok)
              (refreshToken (snd (rotateRefreshToken cfg pf ent now tok deviceInfo ip fp w)))
             = Some (r\<lparr>rt_replacedByToken := Some (rt_token new),
                       rt_rotatedAt := Some now, rt_lastUsedAt := Some now\<rparr>)
         \<and> rt_deviceFingerprint new
             = Some (or_str (rt_deviceFingerprint r) (generateDeviceFingerprint pf deviceInfo))
         \<and> securityAlert (snd (rotateRefreshToken cfg pf ent now tok deviceInfo ip fp w))
             = securityAlert w"
proof -
  have nm: "\<not> (truthy (rt_deviceFingerprint r) \<and> truthy fp \<and> rt_deviceFingerprint r \<noteq> fp)"
    using absent by simp
  let ?fpn = "or_opt (rt_deviceFingerprint r) fp"
  let ?new = "minted_row cfg pf ent now (rt_userId r) deviceInfo ip (Some (rt_familyId r)) ?fpn u"
  have u: "user w (rt_userId r) = Some u" using pres by (simp add: presentable_def)
  have gen: "generateRefreshToken cfg pf ent now (rt_userId r) deviceInfo ip
               (Some (rt_familyId r)) ?fpn w
             = (Inr (rt_token ?new), w\<lparr>refreshToken := refreshToken w @ [?new]\<rparr>)"
    by (rule generateRefreshToken_fresh [OF fr u])
  have rot: "rotateRefreshToken cfg pf ent now tok deviceInfo ip fp w =
      (Inr \<lparr>accessToken = generateAccessToken cfg now (rt_userId r) (u_email u)
                (or_str (u_name u) []),
            refreshToken_of = rt_token ?new\<rparr>,
       db_refreshToken_update (rt_id r)
         (\<lambda>x. x\<lparr>rt_replacedByToken := Some (rt_token ?new),
                rt_rotatedAt := Some now, rt_lastUsedAt := Some now\<rparr>)
         (w\<lparr>refreshToken := refreshToken w @ [?new]\<rparr>))"
    using rotate_proceeds [OF pres ep unused nm, of pf ent deviceInfo ip] gen by simp
  note st = rotate_happy_state [OF pres fr refl refl, of pf deviceInfo ip ?fpn]
  have fpn: "rt_deviceFingerprint ?new
      = Some (or_str (rt_deviceFingerprint r) (generateDeviceFingerprint pf deviceInfo))"
    using absent
    by (auto simp: minted_row_def or_opt_def or_str_def truthy_def split: option.splits)
  show ?thesis
    unfolding new using rot st(1,2,4) fpn by simp
qed

theorem absent_fingerprint_skips_check_witness:
  "presentable demo_cfg 1000 demo_tok1 demo_world1 demo_row1 demo_user
   \<and> rt_deviceFingerprint demo_row1 = Some ''hB:O:UA''
   \<and> fresh ent2 demo_world1
   \<and> fst (rotateRefreshToken demo_cfg demo_pf ent2 1000 demo_tok1 (Some ''UA'')
            (Some ''10.0.0.1'') None demo_world1)
       = Inr \<lparr>accessToken = Jwt ''ka'' (AccessClaims ''u1'' ''ann@example.com'' ''Ann'') 1 301,
              refreshToken_of = demo_tok2\<rparr>
   \<and> fst (rotateRefreshToken demo_cfg demo_pf ent2 1000 demo_tok1 (Some ''UA'')
            (Some ''10.0.0.1'') (Some []) demo_world1)
       = Inr \<lparr>accessToken = Jwt ''ka'' (AccessClaims ''u1'' ''ann@example.com'' ''Ann'') 1 301,
              refreshToken_of = demo_tok2\<rparr>"
proof -
  have h1: "presentable demo_cfg 1000 demo_tok1 demo_world1 demo_row1 demo_user"
    by (rule demo_presentable1)
  have h2: "\<not> rt_tokenVersion demo_row1 < u_tokenVersion demo_user"
    by (simp add: demo_defs)
  have h3: "\<not> rt_isRevoked demo_row1" "\<not> tok_truthy (rt_replacedByToken demo_row1)"
    by (simp_all add: demo_defs)
  have fp: "rt_deviceFingerprint demo_row1 = Some ''hB:O:UA''" by (simp add: demo_defs)
  have a1: "\<not> truthy None" and a2: "\<not> truthy (Some [])" by (simp_all add: truthy_def)
  have h5: "fresh ent2 demo_world1" by (rule demo_fresh)
  have n1: "demo_row2 = minted_row demo_cfg demo_pf ent2 1000 (rt_userId demo_row1) (Some ''UA'')
               (Some ''10.0.0.1'') (Some (rt_familyId demo_row1))
               (or_opt (rt_deviceFingerprint demo_row1) None) demo_user"
    by (simp add: minted_row_def demo_defs jwt_sign_def generateDeviceFingerprint_def or_str_def
          or_opt_def truthy_def)
  have n2: "demo_row2 = minted_row demo_cfg demo_pf ent2 1000 (rt_userId demo_row1) (Some ''UA'')
               (Some ''10.0.0.1'') (Some (rt_familyId demo_row1))
               (or_opt (rt_deviceFingerprint demo_row1) (Some [])) demo_user"
    by (simp add: minted_row_def demo_defs jwt_sign_def generateDeviceFingerprint_def or_str_def
          or_opt_def truthy_def)
  have t2: "rt_token demo_row2 = demo_tok2" by (simp add: demo_row2_def)
  have acc: "generateAccessToken demo_cfg 1000 (rt_userId demo_row1) (u_email demo_user)
               (or_str (u_name demo_user) [])
           = Jwt ''ka'' (AccessClaims ''u1'' ''ann@example.com'' ''Ann'') 1 301"
    by (simp add: generateAccessToken_def jwt_sign_def demo_cfg_def demo_user_def or_str_def
          demo_row1_def)
  show ?thesis
    using h1 fp h5
      absent_fingerprint_skips_check [OF h1 h2 h3 a1 h5 n1]
      absent_fingerprint_skips_check [OF h1 h2 h3 a2 h5 n2]
    by (simp add: t2 acc)
qed

end
